theory Spec2Isabelle
  imports Main "HOL-Library.Word"
begin

section \<open>bankGO: a shallow embedding of the account service\<close>

text \<open>
  The theory follows the four Go files of the repository: the data types and
  \<open>NewAccount\<close>/\<open>ValidatePW\<close> (the types file), the store (\<open>storage.go\<close>) and the
  handlers, the adapter and the JWT gate (\<open>api.go\<close>).

  Conventions.
  \<^item> A Go \<open>error\<close> is its message (\<open>err.Error()\<close>); \<open>nil\<close> is \<open>None\<close>.
  \<^item> A goroutine either returns or panics: \<open>Ret\<close> and \<open>Panic\<close>.
  \<^item> \<open>int64\<close> is \<open>64 word\<close>, read with \<open>sint\<close>; Go's \<open>int\<close> (64 bits on the
    platforms the service targets) is an \<open>int\<close> that \<open>Atoi\<close> keeps in range.
  \<^item> Code outside the repository (the operating system, \<open>math/rand\<close>, \<open>time\<close>,
    \<open>bcrypt\<close>, the JSON decoder of request bodies, the hash and the wire codec of the
    JWT library) is not defined here: it is the record \<open>extern\<close>, a parameter of every
    function that calls it.
  \<^item> What the handlers write to standard output (\<open>fmt.Println\<close>) is left out, and so
    is \<open>main.go\<close> (the flags, the seeding of one account, the start of the server).
  \<^item> \<open>Run\<close> is one request served alone. The server runs every request in a
    goroutine of its own, over the one store; the gate and the handler are separate
    functions here as in the code, so a handler that runs after another request has
    changed the table is the handler applied to the changed store.
\<close>

type_synonym error = string

datatype 'a res = Panic string | Ret 'a

definition nil_dereference :: string where
  "nil_dereference = ''runtime error: invalid memory address or nil pointer dereference''"

subsection \<open>JSON values\<close>

text \<open>
  The values \<open>encoding/json\<close> writes for the types of the repository. Only integer
  numbers occur in them.
\<close>

datatype jval =
    JNull
  | JBool bool
  | JInt int
  | JStr string
  | JArr "jval list"
  | JObj "(string \<times> jval) list"

subsection \<open>The types file: requests, responses, accounts\<close>

text \<open>\<open>time.Time\<close>, as the text its \<open>MarshalJSON\<close> prints.\<close>

type_synonym Time = string

record CreateAccountRequest =
  FirstName :: string
  LastName :: string
  Password :: string

record LoginRequest =
  Number :: "64 word"
  Password :: string

record LoginReponse =
  Number :: "64 word"
  Token :: string

record TransferRequest =
  ToAccount :: int
  Amount :: int

record Account =
  ID :: int
  FirstName :: string
  LastName :: string
  Number :: "64 word"
  Balance :: "64 word"
  CreatedAt :: Time
  EncryptedPassword :: string

text \<open>
  The struct tags, field by field. \<open>EncryptedPassword\<close> carries the tag \<open>json:"-"\<close>:
  the encoder skips it.
\<close>

definition Account_json :: "Account \<Rightarrow> jval" where
  "Account_json a = JObj
     [(''id'', JInt (ID a)),
      (''firstName'', JStr (Account.FirstName a)),
      (''lastName'', JStr (Account.LastName a)),
      (''number'', JInt (sint (Account.Number a))),
      (''balance'', JInt (sint (Balance a))),
      (''createdat'', JStr (CreatedAt a))]"

definition LoginReponse_json :: "LoginReponse \<Rightarrow> jval" where
  "LoginReponse_json l = JObj
     [(''number'', JInt (sint (LoginReponse.Number l))), (''token'', JStr (Token l))]"

definition TransferRequest_json :: "TransferRequest \<Rightarrow> jval" where
  "TransferRequest_json t = JObj
     [(''toAccount'', JInt (ToAccount t)), (''amount'', JInt (Amount t))]"

text \<open>\<open>APIError\<close> has the one field \<open>Error\<close>, tagged \<open>error\<close>.\<close>

definition APIError :: "string \<Rightarrow> jval" where
  "APIError msg = JObj [(''error'', JStr msg)]"

subsection \<open>Code outside the repository\<close>

text \<open>
  \<^item> \<open>Getenv\<close>: \<open>os.Getenv\<close>; the empty string for a variable that is not set.
  \<^item> \<open>rand_draw\<close>: the raw value \<open>rand.Intn\<close> accepts from its generator; \<open>Intn\<close>
    reduces it modulo its argument.
  \<^item> \<open>Now\<close>: \<open>time.Now().UTC()\<close>; \<open>Unix_now\<close>: the JWT library's clock, in seconds.
  \<^item> \<open>GenerateFromPassword\<close>, \<open>CompareHashAndPassword\<close>: \<open>bcrypt\<close>.
  \<^item> \<open>Decode_*\<close>: \<open>json.NewDecoder(r.Body).Decode\<close> at each request type.
  \<^item> \<open>hmac\<close>: the keyed hash of an HMAC signing method, by hash name, key and
    message, as the encoded third segment of a token.
  \<^item> \<open>signing_string\<close>: the first two segments of a token (header and claims, each
    serialised and base64url-encoded, joined by a dot) for an algorithm name and the
    members of the claims object.
  \<^item> \<open>split_token\<close>: the reverse: a token string into its signing string, its
    header's algorithm name, the members of its claims object and its signature
    segment; \<open>None\<close> for a string that is not three well-formed segments.
\<close>

record extern =
  Getenv :: "string \<Rightarrow> string"
  rand_draw :: nat
  Now :: Time
  Unix_now :: int
  GenerateFromPassword :: "string \<Rightarrow> nat \<Rightarrow> error + string"
  CompareHashAndPassword :: "string \<Rightarrow> string \<Rightarrow> error option"
  Decode_LoginRequest :: "string \<Rightarrow> error + LoginRequest"
  Decode_CreateAccountRequest :: "string \<Rightarrow> error + CreateAccountRequest"
  Decode_TransferRequest :: "string \<Rightarrow> error + TransferRequest"
  hmac :: "string \<Rightarrow> string \<Rightarrow> string \<Rightarrow> string"
  signing_string :: "string \<Rightarrow> (string \<times> jval) list \<Rightarrow> string"
  split_token :: "string \<Rightarrow> (string \<times> string \<times> (string \<times> jval) list \<times> string) option"

definition Intn :: "extern \<Rightarrow> nat \<Rightarrow> nat" where
  "Intn X n = rand_draw X mod n"

definition DefaultCost :: nat where
  "DefaultCost = 10"

subsection \<open>\<open>ValidatePW\<close> and \<open>NewAccount\<close>\<close>

definition ValidatePW :: "extern \<Rightarrow> Account \<Rightarrow> string \<Rightarrow> bool" where
  "ValidatePW X a pw = (CompareHashAndPassword X (EncryptedPassword a) pw = None)"

text \<open>
  \<open>NewAccount\<close> returns a pointer and an error: \<open>(nil, err)\<close> when hashing fails. The
  fields the struct literal leaves out (\<open>ID\<close>, \<open>Balance\<close>) are zero.
\<close>

definition NewAccount :: "extern \<Rightarrow> string \<Rightarrow> string \<Rightarrow> string \<Rightarrow> Account option \<times> error option" where
  "NewAccount X firstname lastname password =
     (case GenerateFromPassword X password DefaultCost of
        Inl err \<Rightarrow> (None, Some err)
      | Inr encpw \<Rightarrow>
          (Some \<lparr>ID = 0,
                 FirstName = firstname,
                 LastName = lastname,
                 Number = of_nat (Intn X 100000),
                 Balance = 0,
                 CreatedAt = Now X,
                 EncryptedPassword = encpw\<rparr>,
           None))"

subsection \<open>\<open>storage.go\<close>: the Postgres store\<close>

text \<open>
  The table \<open>account\<close> is the list of its rows, in insertion order; \<open>serial\<close> is the
  next value of the \<open>id\<close> column's sequence. \<open>fault\<close> is the error every
  \<open>db.Query\<close> returns while the database cannot be reached (\<open>None\<close>: it can).
  \<open>qlog\<close> records the statements sent, so that "no store operation" can be stated.
  The table has no constraint but the primary key on \<open>id\<close>, in particular none
  on \<open>number\<close>; the widths of its columns (\<open>varchar(50)\<close>, 32-bit \<open>serial\<close>) are
  not modelled.
\<close>

record PostgresStore =
  rows :: "Account list"
  serial :: int
  fault :: "error option"
  qlog :: "string list"

definition Query :: "string \<Rightarrow> PostgresStore \<Rightarrow> error option \<times> PostgresStore" where
  "Query q s = (fault s, s\<lparr>qlog := qlog s @ [q]\<rparr>)"

definition digit :: "nat \<Rightarrow> char" where
  "digit n = ''0123456789'' ! (n mod 10)"

fun string_of_nat :: "nat \<Rightarrow> string" where
  "string_of_nat n =
     (if n < 10 then [digit n] else string_of_nat (n div 10) @ [digit n])"

definition string_of_int :: "int \<Rightarrow> string" where
  "string_of_int i = (if i < 0 then CHR ''-'' # string_of_nat (nat (- i)) else string_of_nat (nat i))"

text \<open>\<open>CreateAccount\<close> reads the fields of \<open>a\<close>: a nil pointer panics.\<close>

definition CreateAccount :: "Account option \<Rightarrow> PostgresStore \<Rightarrow> (error option \<times> PostgresStore) res" where
  "CreateAccount a s =
     (case a of
        None \<Rightarrow> Panic nil_dereference
      | Some acc \<Rightarrow>
          (case Query ''INSERT INTO account'' s of
             (Some err, s') \<Rightarrow> Ret (Some err, s')
           | (None, s') \<Rightarrow>
               Ret (None, s'\<lparr>rows := rows s' @ [acc\<lparr>ID := serial s'\<rparr>],
                               serial := serial s' + 1\<rparr>)))"

definition UpdateAccount :: "Account option \<Rightarrow> PostgresStore \<Rightarrow> error option \<times> PostgresStore" where
  "UpdateAccount a s = (None, s)"

definition DeleteAccount :: "int \<Rightarrow> PostgresStore \<Rightarrow> error option \<times> PostgresStore" where
  "DeleteAccount id' s =
     (case Query ''DELETE FROM account WHERE ID = $1'' s of
        (Some err, s') \<Rightarrow> (Some err, s')
      | (None, s') \<Rightarrow> (None, s'\<lparr>rows := filter (\<lambda>a. ID a \<noteq> id') (rows s')\<rparr>))"

definition GetAccountByNumber :: "int \<Rightarrow> PostgresStore \<Rightarrow> (error + Account) \<times> PostgresStore" where
  "GetAccountByNumber number s =
     (case Query ''SELECT * FROM account WHERE number = $1'' s of
        (Some err, s') \<Rightarrow> (Inl err, s')
      | (None, s') \<Rightarrow>
          (case find (\<lambda>a. sint (Account.Number a) = number) (rows s') of
             Some acc \<Rightarrow> (Inr acc, s')
           | None \<Rightarrow> (Inl (''Account with number '' @ string_of_int number @ '' not found''), s')))"

definition GetAccountByID :: "int \<Rightarrow> PostgresStore \<Rightarrow> (error + Account) \<times> PostgresStore" where
  "GetAccountByID id' s =
     (case Query ''SELECT * FROM account WHERE ID = $1'' s of
        (Some err, s') \<Rightarrow> (Inl err, s')
      | (None, s') \<Rightarrow>
          (case find (\<lambda>a. ID a = id') (rows s') of
             Some acc \<Rightarrow> (Inr acc, s')
           | None \<Rightarrow> (Inl (''Account '' @ string_of_int id' @ '' not found''), s')))"

definition GetAccounts :: "PostgresStore \<Rightarrow> (error + Account list) \<times> PostgresStore" where
  "GetAccounts s =
     (case Query ''Select * from account'' s of
        (Some err, s') \<Rightarrow> (Inl err, s')
      | (None, s') \<Rightarrow> (Inr (rows s'), s'))"

subsection \<open>\<open>net/http\<close> and the router\<close>

text \<open>
  A request as the handlers read it: the method, the route chi matched, the headers
  and the body. For \<open>/account/{id}\<close> the route carries the text of the \<open>{id}\<close>
  segment. chi matches the pattern only against a segment that is not empty (it
  answers \<open>/account/\<close> itself, with its 404), so the segment is given as its first
  character and the rest.
\<close>

datatype route = Login | Accounts | SingleAccount char string | Transfer

record Request =
  Method :: string
  Route :: route
  Header :: "(string \<times> string) list"
  Body :: string

definition Header_Get :: "Request \<Rightarrow> string \<Rightarrow> string" where
  "Header_Get r k = (case map_of (Header r) k of None \<Rightarrow> [] | Some v \<Rightarrow> v)"

text \<open>\<open>chi.URLParam\<close>: only the pattern \<open>/account/{id}\<close> has a parameter.\<close>

definition URLParam :: "Request \<Rightarrow> string \<Rightarrow> string" where
  "URLParam r k = (case Route r of SingleAccount c cs \<Rightarrow> (if k = ''id'' then c # cs else []) | _ \<Rightarrow> [])"

text \<open>
  The response writer: the header map, the status line (\<open>None\<close> until the first
  \<open>WriteHeader\<close>; a later one changes nothing) and the JSON values encoded to the body,
  in order. Writing to it does not fail.
\<close>

record ResponseWriter =
  headers :: "(string \<times> string) list"
  status :: "nat option"
  body :: "jval list"

definition new_writer :: ResponseWriter where
  "new_writer = \<lparr>headers = [], status = None, body = []\<rparr>"

definition StatusOK :: nat where "StatusOK = 200"
definition StatusBadRequest :: nat where "StatusBadRequest = 400"
definition StatusForbidden :: nat where "StatusForbidden = 403"

definition WriteHeader :: "nat \<Rightarrow> ResponseWriter \<Rightarrow> ResponseWriter" where
  "WriteHeader st w = (case status w of None \<Rightarrow> w\<lparr>status := Some st\<rparr> | Some _ \<Rightarrow> w)"

definition WriteJSON :: "ResponseWriter \<Rightarrow> nat \<Rightarrow> jval \<Rightarrow> error option \<times> ResponseWriter" where
  "WriteJSON w st v =
     (let w1 = w\<lparr>headers := headers w @ [(''Content-Type'', ''application/json'')]\<rparr>;
          w2 = WriteHeader st w1
      in (None, w2\<lparr>body := body w2 @ [v]\<rparr>))"

text \<open>What a handler works on: the writer of this request and the server's store.\<close>

record world =
  rw :: ResponseWriter
  store :: PostgresStore

type_synonym apiFunc = "Request \<Rightarrow> world \<Rightarrow> (error option \<times> world) res"
type_synonym HandlerFunc = "Request \<Rightarrow> world \<Rightarrow> world res"

subsection \<open>\<open>strconv.Atoi\<close> and \<open>getID\<close>\<close>

text \<open>
  \<open>Atoi\<close>: an optional sign, then one or more decimal digits and nothing else; a
  value outside the 64-bit range is an error as well.
\<close>

definition is_digit :: "char \<Rightarrow> bool" where
  "is_digit c = (c \<in> set ''0123456789'')"

definition digit_value :: "char \<Rightarrow> nat" where
  "digit_value c = of_char c - 48"

fun decimal :: "nat \<Rightarrow> string \<Rightarrow> nat option" where
  "decimal acc [] = Some acc"
| "decimal acc (c # cs) = (if is_digit c then decimal (10 * acc + digit_value c) cs else None)"

definition Atoi :: "string \<Rightarrow> error + int" where
  "Atoi s =
     (let neg = (case s of c # _ \<Rightarrow> c = CHR ''-'' | [] \<Rightarrow> False);
          ds = (case s of c # cs \<Rightarrow> (if c = CHR ''-'' \<or> c = CHR ''+'' then cs else s) | [] \<Rightarrow> [])
      in if ds = [] then Inl (''strconv.Atoi: parsing: invalid syntax'')
         else (case decimal 0 ds of
                 None \<Rightarrow> Inl (''strconv.Atoi: parsing: invalid syntax'')
               | Some n \<Rightarrow>
                   (let v = (if neg then - int n else int n)
                    in if v < - (2 ^ 63) \<or> 2 ^ 63 - 1 < v
                       then Inl (''strconv.Atoi: parsing: value out of range'')
                       else Inr v)))"

definition getID :: "Request \<Rightarrow> error + int" where
  "getID r =
     (let idStr = URLParam r ''id''
      in case Atoi idStr of
           Inl err \<Rightarrow> Inl (''invalid ID provided '' @ idStr)
         | Inr id' \<Rightarrow> Inr id')"

subsection \<open>The JWT library, as far as \<open>api.go\<close> calls it\<close>

text \<open>
  \<open>github.com/golang-jwt/jwt/v4\<close> is not part of the repository. Its control flow
  (\<open>NewWithClaims\<close>, \<open>SignedString\<close>, \<open>Parse\<close> with a key function, the validation of
  \<open>MapClaims\<close>) is written out below as the library documents it; the hash and the
  wire codec stay parameters (\<open>hmac\<close>, \<open>signing_string\<close>, \<open>split_token\<close>).

  A claim value is a Go \<open>interface{}\<close>. The JSON decoder turns every number into a
  \<open>float64\<close>, which is why the gate asserts that type; \<open>IFloat64\<close> carries the
  (integer) value of the float.
\<close>

datatype iface =
    INil
  | IInt int
  | IInt64 "64 word"
  | IFloat64 int
  | IString string
  | IBool bool
  | IOther jval

fun type_name :: "iface \<Rightarrow> string" where
  "type_name INil = ''nil''"
| "type_name (IInt _) = ''int''"
| "type_name (IInt64 _) = ''int64''"
| "type_name (IFloat64 _) = ''float64''"
| "type_name (IString _) = ''string''"
| "type_name (IBool _) = ''bool''"
| "type_name (IOther _) = ''[]interface {} or map[string]interface {}''"

text \<open>
  Conversion of an integer to the nearest \<open>float64\<close> (53 significant bits, ties to
  even), and Go's \<open>int64(f)\<close> for an integer-valued float (outside the range: the
  value amd64 produces).
\<close>

function bit_length :: "int \<Rightarrow> nat" where
  "bit_length n = (if n \<le> 0 then 0 else Suc (bit_length (n div 2)))"
  by pat_completeness auto
termination
  by (relation "measure nat") auto

declare bit_length.simps [simp del]

definition round_to_53 :: "int \<Rightarrow> int" where
  "round_to_53 a =
     (let e = bit_length a - 53; q = a div 2 ^ e; r = a mod 2 ^ e
      in if 2 ^ e < 2 * r \<or> (2 * r = 2 ^ e \<and> odd q) then (q + 1) * 2 ^ e else q * 2 ^ e)"

definition float64_of_int :: "int \<Rightarrow> int option" where
  "float64_of_int n =
     (let v = round_to_53 \<bar>n\<bar>
      in if 2 ^ 1024 \<le> v then None else Some (if n < 0 then - v else v))"

definition int64_of_float64 :: "int \<Rightarrow> 64 word" where
  "int64_of_float64 v = (if - (2 ^ 63) \<le> v \<and> v < 2 ^ 63 then word_of_int v else 2 ^ 63)"

fun to_jval :: "iface \<Rightarrow> jval" where
  "to_jval INil = JNull"
| "to_jval (IInt n) = JInt n"
| "to_jval (IInt64 w) = JInt (sint w)"
| "to_jval (IFloat64 v) = JInt v"
| "to_jval (IString s) = JStr s"
| "to_jval (IBool b) = JBool b"
| "to_jval (IOther j) = j"

fun of_jval :: "jval \<Rightarrow> iface option" where
  "of_jval JNull = Some INil"
| "of_jval (JBool b) = Some (IBool b)"
| "of_jval (JInt n) = map_option IFloat64 (float64_of_int n)"
| "of_jval (JStr s) = Some (IString s)"
| "of_jval (JArr js) = Some (IOther (JArr js))"
| "of_jval (JObj ms) = Some (IOther (JObj ms))"

type_synonym MapClaims = "(string \<times> iface) list"

text \<open>\<open>m[k]\<close>: the value and whether the key is present.\<close>

definition claim :: "MapClaims \<Rightarrow> string \<Rightarrow> iface option" where
  "claim m k = map_of m k"

text \<open>Decoding the claims object; of a repeated key the last member counts.\<close>

fun decode_members :: "(string \<times> jval) list \<Rightarrow> MapClaims option" where
  "decode_members [] = Some []"
| "decode_members ((k, j) # ms) =
     (case of_jval j of
        None \<Rightarrow> None
      | Some v \<Rightarrow> (case decode_members ms of None \<Rightarrow> None | Some m \<Rightarrow> Some (m @ [(k, v)])))"

datatype SigningMethod = SigningMethodHMAC string | SigningMethodOther string

definition SigningMethodHS256 :: SigningMethod where
  "SigningMethodHS256 = SigningMethodHMAC ''HS256''"

fun Alg :: "SigningMethod \<Rightarrow> string" where
  "Alg (SigningMethodHMAC a) = a"
| "Alg (SigningMethodOther a) = a"

definition GetSigningMethod :: "string \<Rightarrow> SigningMethod option" where
  "GetSigningMethod alg =
     (if alg \<in> set [''HS256'', ''HS384'', ''HS512''] then Some (SigningMethodHMAC alg)
      else if alg \<in> set [''RS256'', ''RS384'', ''RS512'', ''PS256'', ''PS384'', ''PS512'',
                           ''ES256'', ''ES384'', ''ES512'', ''EdDSA'', ''none'']
      then Some (SigningMethodOther alg)
      else None)"

text \<open>
  A key is an \<open>interface{}\<close>; the repository only ever passes a byte slice. The HMAC
  methods take a byte slice of any length; every other method refuses one.
\<close>

datatype key = Bytes string

record Token =
  Raw :: string
  Method :: SigningMethod
  Claims :: MapClaims
  Signature :: string
  Valid :: bool

definition NewWithClaims :: "SigningMethod \<Rightarrow> MapClaims \<Rightarrow> Token" where
  "NewWithClaims m claims = \<lparr>Raw = [], Method = m, Claims = claims, Signature = [], Valid = False\<rparr>"

definition Method_Sign :: "extern \<Rightarrow> SigningMethod \<Rightarrow> string \<Rightarrow> key \<Rightarrow> error + string" where
  "Method_Sign X m signingString k =
     (case m of
        SigningMethodHMAC h \<Rightarrow> (case k of Bytes keyBytes \<Rightarrow> Inr (hmac X h keyBytes signingString))
      | SigningMethodOther a \<Rightarrow> Inl ''key is of invalid type'')"

definition Method_Verify :: "extern \<Rightarrow> SigningMethod \<Rightarrow> string \<Rightarrow> string \<Rightarrow> key \<Rightarrow> error option" where
  "Method_Verify X m signingString signature k =
     (case m of
        SigningMethodHMAC h \<Rightarrow>
          (case k of
             Bytes keyBytes \<Rightarrow>
               (if signature = hmac X h keyBytes signingString then None
                else Some ''signature is invalid''))
      | SigningMethodOther a \<Rightarrow> Some ''key is of invalid type'')"

definition SignedString :: "extern \<Rightarrow> Token \<Rightarrow> key \<Rightarrow> error + string" where
  "SignedString X t k =
     (let sstr = signing_string X (Alg (Token.Method t)) (map (\<lambda>(c, v). (c, to_jval v)) (Claims t))
      in case Method_Sign X (Token.Method t) sstr k of
           Inl err \<Rightarrow> Inl err
         | Inr sig \<Rightarrow> Inr (sstr @ ''.'' @ sig))"

text \<open>
  \<open>MapClaims.Valid\<close>: \<open>exp\<close>, \<open>iat\<close> and \<open>nbf\<close> are checked when present, against
  the library's clock; a claim of another name is not looked at. The library turns the
  float into a time through \<open>int64\<close> seconds, so the comparison is on the converted
  value.
\<close>

definition verify_exp :: "MapClaims \<Rightarrow> int \<Rightarrow> bool" where
  "verify_exp m now =
     (case claim m ''exp'' of
        None \<Rightarrow> True
      | Some (IFloat64 e) \<Rightarrow> e = 0 \<or> now < sint (int64_of_float64 e)
      | Some _ \<Rightarrow> False)"

definition verify_from :: "string \<Rightarrow> MapClaims \<Rightarrow> int \<Rightarrow> bool" where
  "verify_from k m now =
     (case claim m k of
        None \<Rightarrow> True
      | Some (IFloat64 e) \<Rightarrow> e = 0 \<or> sint (int64_of_float64 e) \<le> now
      | Some _ \<Rightarrow> False)"

definition MapClaims_Valid :: "extern \<Rightarrow> MapClaims \<Rightarrow> error option" where
  "MapClaims_Valid X m =
     (let now = Unix_now X
      in if \<not> verify_exp m now then Some ''Token is expired''
         else if \<not> verify_from ''iat'' m now then Some ''Token used before issued''
         else if \<not> verify_from ''nbf'' m now then Some ''Token is not valid yet''
         else None)"

definition Parse :: "extern \<Rightarrow> string \<Rightarrow> (Token \<Rightarrow> error + key) \<Rightarrow> error + Token" where
  "Parse X tokenString keyFunc =
     (case split_token X tokenString of
        None \<Rightarrow> Inl ''token is malformed''
      | Some (sstr, alg, members, sig) \<Rightarrow>
          (case decode_members members of
             None \<Rightarrow> Inl ''token is malformed''
           | Some claims \<Rightarrow>
               (case GetSigningMethod alg of
                  None \<Rightarrow> Inl ''signing method (alg) is unavailable.''
                | Some m \<Rightarrow>
                    (let token = \<lparr>Raw = tokenString, Method = m, Claims = claims,
                                  Signature = [], Valid = False\<rparr>
                     in case keyFunc token of
                          Inl err \<Rightarrow> Inl err
                        | Inr k \<Rightarrow>
                            (let vErr = MapClaims_Valid X claims
                             in case Method_Verify X m sstr sig k of
                                  Some err \<Rightarrow> Inl err
                                | None \<Rightarrow>
                                    (case vErr of
                                       Some err \<Rightarrow> Inl err
                                     | None \<Rightarrow> Inr (token\<lparr>Signature := sig, Valid := True\<rparr>)))))))"

subsection \<open>\<open>api.go\<close>: tokens\<close>

definition createJWT :: "extern \<Rightarrow> Account \<Rightarrow> error + string" where
  "createJWT X account =
     (let claims = [(''expiresAt'', IInt 15000),
                    (''accountNumber'', IInt64 (Account.Number account))];
          secret = Getenv X ''JWT_SECRET'';
          token = NewWithClaims SigningMethodHS256 claims
      in SignedString X token (Bytes secret))"

definition validateJWT :: "extern \<Rightarrow> string \<Rightarrow> error + Token" where
  "validateJWT X tokenStr =
     (let secret = Getenv X ''JWT_SECRET''
      in Parse X tokenStr
           (\<lambda>token. case Token.Method token of
                       SigningMethodHMAC h \<Rightarrow> Inr (Bytes secret)
                     | SigningMethodOther a \<Rightarrow> Inl (''unexpected signing method: '' @ a)))"

subsection \<open>\<open>api.go\<close>: responses, the adapter and the gate\<close>

definition PermissionsDenied :: "ResponseWriter \<Rightarrow> ResponseWriter" where
  "PermissionsDenied w = snd (WriteJSON w StatusForbidden (APIError ''Permission denied''))"

definition makeHTTPHandleFunc :: "apiFunc \<Rightarrow> HandlerFunc" where
  "makeHTTPHandleFunc f r wd =
     (case f r wd of
        Panic p \<Rightarrow> Panic p
      | Ret (None, wd') \<Rightarrow> Ret wd'
      | Ret (Some err, wd') \<Rightarrow>
          Ret (wd'\<lparr>rw := snd (WriteJSON (rw wd') StatusBadRequest (APIError err))\<rparr>))"

text \<open>
  The gate. The two type assertions of its last check are unchecked: the first
  always holds (\<open>Parse\<close> fills \<open>MapClaims\<close>), the second panics when the claim
  \<open>accountNumber\<close> is absent or is not a number.
\<close>

definition withJWTAuth :: "extern \<Rightarrow> HandlerFunc \<Rightarrow> HandlerFunc" where
  "withJWTAuth X handlerFunc r wd =
     (let tokenString = Header_Get r ''x-jwt-token''
      in if tokenString = [] then Ret (wd\<lparr>rw := PermissionsDenied (rw wd)\<rparr>)
         else (case validateJWT X tokenString of
                 Inl err \<Rightarrow> Ret (wd\<lparr>rw := PermissionsDenied (rw wd)\<rparr>)
               | Inr token \<Rightarrow>
                   (case getID r of
                      Inl err \<Rightarrow> Ret (wd\<lparr>rw := PermissionsDenied (rw wd)\<rparr>)
                    | Inr userID \<Rightarrow>
                        (case GetAccountByID userID (store wd) of
                           (Inl err, s') \<Rightarrow> Ret (wd\<lparr>rw := PermissionsDenied (rw wd), store := s'\<rparr>)
                         | (Inr account, s') \<Rightarrow>
                             (let claims = Claims token
                              in case claim claims ''accountNumber'' of
                                   Some (IFloat64 f) \<Rightarrow>
                                     (if Account.Number account \<noteq> int64_of_float64 f
                                      then Ret (wd\<lparr>rw := PermissionsDenied (rw wd), store := s'\<rparr>)
                                      else handlerFunc r (wd\<lparr>store := s'\<rparr>))
                                 | Some v \<Rightarrow>
                                     Panic (''interface conversion: interface {} is '' @ type_name v
                                            @ '', not float64'')
                                 | None \<Rightarrow>
                                     Panic ''interface conversion: interface {} is nil, not float64'')))))"

subsection \<open>\<open>api.go\<close>: the handlers\<close>

definition HandleGetAccount :: apiFunc where
  "HandleGetAccount r wd =
     (case GetAccounts (store wd) of
        (Inl err, s') \<Rightarrow> Ret (Some err, wd\<lparr>store := s'\<rparr>)
      | (Inr accounts, s') \<Rightarrow>
          (case WriteJSON (rw wd) StatusOK (JArr (map Account_json accounts)) of
             (e, w') \<Rightarrow> Ret (e, wd\<lparr>rw := w', store := s'\<rparr>)))"

definition HandleGetAccountByID :: apiFunc where
  "HandleGetAccountByID r wd =
     (case getID r of
        Inl err \<Rightarrow> Ret (Some err, wd)
      | Inr id' \<Rightarrow>
          (case GetAccountByID id' (store wd) of
             (Inl err, s') \<Rightarrow> Ret (Some err, wd\<lparr>store := s'\<rparr>)
           | (Inr account, s') \<Rightarrow>
               (case WriteJSON (rw wd) StatusOK (Account_json account) of
                  (e, w') \<Rightarrow> Ret (e, wd\<lparr>rw := w', store := s'\<rparr>))))"

text \<open>
  \<open>HandleCreateAccount\<close> drops the error of \<open>NewAccount\<close> and passes the pointer on,
  nil or not: first to \<open>CreateAccount\<close>, then to \<open>WriteJSON\<close>, which encodes a nil
  pointer as \<open>null\<close>.
\<close>

definition HandleCreateAccount :: "extern \<Rightarrow> apiFunc" where
  "HandleCreateAccount X r wd =
     (case Decode_CreateAccountRequest X (Body r) of
        Inl err \<Rightarrow> Ret (Some err, wd)
      | Inr createAccountReq \<Rightarrow>
          (let account = fst (NewAccount X (CreateAccountRequest.FirstName createAccountReq)
                                           (CreateAccountRequest.LastName createAccountReq)
                                           (CreateAccountRequest.Password createAccountReq))
           in case CreateAccount account (store wd) of
                Panic p \<Rightarrow> Panic p
              | Ret (Some err, s') \<Rightarrow> Ret (Some err, wd\<lparr>store := s'\<rparr>)
              | Ret (None, s') \<Rightarrow>
                  (case WriteJSON (rw wd) StatusOK
                          (case account of None \<Rightarrow> JNull | Some a \<Rightarrow> Account_json a) of
                     (e, w') \<Rightarrow> Ret (e, wd\<lparr>rw := w', store := s'\<rparr>))))"

definition HandleDeleteAccount :: apiFunc where
  "HandleDeleteAccount r wd =
     (case getID r of
        Inl err \<Rightarrow> Ret (Some err, wd)
      | Inr id' \<Rightarrow>
          (case DeleteAccount id' (store wd) of
             (Some err, s') \<Rightarrow> Ret (Some err, wd\<lparr>store := s'\<rparr>)
           | (None, s') \<Rightarrow>
               (case WriteJSON (rw wd) StatusOK (JObj [(''deleted:'', JInt id')]) of
                  (e, w') \<Rightarrow> Ret (e, wd\<lparr>rw := w', store := s'\<rparr>))))"

definition HandleTransferToAccount :: "extern \<Rightarrow> apiFunc" where
  "HandleTransferToAccount X r wd =
     (case Decode_TransferRequest X (Body r) of
        Inl err \<Rightarrow> Ret (Some err, wd)
      | Inr transferReq \<Rightarrow>
          (case WriteJSON (rw wd) StatusOK (TransferRequest_json transferReq) of
             (e, w') \<Rightarrow> Ret (e, wd\<lparr>rw := w'\<rparr>)))"

definition HandleLogin :: "extern \<Rightarrow> apiFunc" where
  "HandleLogin X r wd =
     (if Request.Method r \<noteq> ''POST'' then Ret (None, wd\<lparr>rw := PermissionsDenied (rw wd)\<rparr>)
      else (case Decode_LoginRequest X (Body r) of
              Inl err \<Rightarrow> Ret (Some err, wd)
            | Inr req \<Rightarrow>
                (case GetAccountByNumber (sint (LoginRequest.Number req)) (store wd) of
                   (Inl err, s') \<Rightarrow> Ret (Some err, wd\<lparr>store := s'\<rparr>)
                 | (Inr acc, s') \<Rightarrow>
                     (if \<not> ValidatePW X acc (LoginRequest.Password req)
                      then Ret (Some ''failed to login'', wd\<lparr>store := s'\<rparr>)
                      else (case createJWT X acc of
                              Inl err \<Rightarrow> Ret (Some err, wd\<lparr>store := s'\<rparr>)
                            | Inr token \<Rightarrow>
                                (let resp = \<lparr>LoginReponse.Number = Account.Number acc, Token = token\<rparr>
                                 in case WriteJSON (rw wd) StatusOK (LoginReponse_json resp) of
                                      (e, w') \<Rightarrow> Ret (e, wd\<lparr>rw := w', store := s'\<rparr>)))))))"

definition HandleAccount :: "extern \<Rightarrow> apiFunc" where
  "HandleAccount X r wd =
     (if Request.Method r = ''GET'' then HandleGetAccount r wd
      else if Request.Method r = ''POST'' then HandleCreateAccount X r wd
      else Ret (Some (''methods not allowed '' @ Request.Method r), wd))"

definition HandleTransfer :: "extern \<Rightarrow> apiFunc" where
  "HandleTransfer X r wd =
     (if Request.Method r = ''GET'' then HandleGetAccount r wd
      else if Request.Method r = ''POST'' then HandleTransferToAccount X r wd
      else if Request.Method r = ''DELETE'' then HandleDeleteAccount r wd
      else Ret (Some (''methods not allowed '' @ Request.Method r), wd))"

definition HandleSingleAccount :: apiFunc where
  "HandleSingleAccount r wd =
     (if Request.Method r = ''GET'' then HandleGetAccountByID r wd
      else if Request.Method r = ''DELETE'' then HandleDeleteAccount r wd
      else Ret (Some ''method not provided'', wd))"

text \<open>\<open>Run\<close>: the four routes, each registered for every method.\<close>

definition Run :: "extern \<Rightarrow> HandlerFunc" where
  "Run X r wd =
     (case Route r of
        Login \<Rightarrow> makeHTTPHandleFunc (HandleLogin X) r wd
      | Accounts \<Rightarrow> makeHTTPHandleFunc (HandleAccount X) r wd
      | SingleAccount c cs \<Rightarrow> withJWTAuth X (makeHTTPHandleFunc HandleSingleAccount) r wd
      | Transfer \<Rightarrow> makeHTTPHandleFunc (HandleTransfer X) r wd)"

section \<open>Notions used in the statements\<close>

text \<open>
  \<open>response st v\<close>: what a client receives when a fresh writer is written once with
  \<open>WriteJSON\<close>.
\<close>

definition response :: "nat \<Rightarrow> jval \<Rightarrow> ResponseWriter" where
  "response st v = \<lparr>headers = [(''Content-Type'', ''application/json'')], status = Some st, body = [v]\<rparr>"

text \<open>
  \<open>bound_number\<close>: the account number the gate reads from a verified token, the
  expression \<open>int64(claims["accountNumber"].(float64))\<close> of \<open>withJWTAuth\<close>; \<open>None\<close>
  where its type assertion fails.
\<close>

definition bound_number :: "Token \<Rightarrow> 64 word option" where
  "bound_number token =
     (case claim (Claims token) ''accountNumber'' of
        Some (IFloat64 f) \<Rightarrow> Some (int64_of_float64 f)
      | _ \<Rightarrow> None)"

text \<open>
  \<open>numbers_allocated s\<close>: every account number in the table lies in the range from
  which \<open>NewAccount\<close> draws.
\<close>

definition numbers_allocated :: "PostgresStore \<Rightarrow> bool" where
  "numbers_allocated s =
     list_all (\<lambda>a. 0 \<le> sint (Account.Number a) \<and> sint (Account.Number a) < 100000) (rows s)"

text \<open>
  \<open>issued_claims\<close>: the members of the claims object \<open>createJWT\<close> signs for an account.
  \<open>wire_faithful\<close>: the wire codec splits the token issued for the account into the
  segments that were encoded (what base64url and JSON do for the real library).
\<close>

definition issued_claims :: "Account \<Rightarrow> (string \<times> jval) list" where
  "issued_claims account =
     [(''expiresAt'', JInt 15000), (''accountNumber'', JInt (sint (Account.Number account)))]"

definition wire_faithful :: "extern \<Rightarrow> Account \<Rightarrow> bool" where
  "wire_faithful X account =
     (let sstr = signing_string X ''HS256'' (issued_claims account);
          sig = hmac X ''HS256'' (Getenv X ''JWT_SECRET'') sstr
      in split_token X (sstr @ ''.'' @ sig) = Some (sstr, ''HS256'', issued_claims account, sig))"

section \<open>A concrete environment for worked runs\<close>

text \<open>
  \<open>demo\<close> fixes every parameter, so that the functions above can be run on whole
  requests. Its hash, its bcrypt and its wire codec are stand-ins: \<open>demo_hmac\<close> writes
  the keyed hash symbolically, \<open>demo_generate\<close> refuses a password of more than 72
  bytes (as \<open>bcrypt\<close> does) and otherwise prefixes it, and \<open>demo_split\<close> knows the
  tokens listed in \<open>demo_wire\<close> and takes every other string for malformed.
\<close>

definition demo_hmac :: "string \<Rightarrow> string \<Rightarrow> string \<Rightarrow> string" where
  "demo_hmac h k m = ''hmac('' @ h @ '','' @ k @ '','' @ m @ '')''"

definition demo_member :: "string \<times> jval \<Rightarrow> string" where
  "demo_member m = fst m @ ''='' @ (case snd m of JInt n \<Rightarrow> string_of_int n | _ \<Rightarrow> ''_'') @ '';''"

definition demo_signing_string :: "string \<Rightarrow> (string \<times> jval) list \<Rightarrow> string" where
  "demo_signing_string alg ms = alg @ ''.'' @ concat (map demo_member ms)"

definition demo_token :: "string \<Rightarrow> (string \<times> jval) list \<Rightarrow> string \<Rightarrow> string" where
  "demo_token alg ms k =
     demo_signing_string alg ms @ ''.'' @ demo_hmac alg k (demo_signing_string alg ms)"

definition demo_entry ::
  "string \<times> (string \<times> jval) list \<times> string \<Rightarrow> string \<times> string \<times> string \<times> (string \<times> jval) list \<times> string" where
  "demo_entry e =
     (case e of (alg, ms, k) \<Rightarrow>
        (demo_token alg ms k,
         demo_signing_string alg ms, alg, ms, demo_hmac alg k (demo_signing_string alg ms)))"

definition demo_wire :: "(string \<times> (string \<times> jval) list \<times> string) list" where
  "demo_wire =
     [(''HS256'', [(''expiresAt'', JInt 15000), (''accountNumber'', JInt 34567)], ''s3cret''),
      (''HS256'', [(''expiresAt'', JInt 15000), (''accountNumber'', JInt 77)], ''s3cret''),
      (''HS256'', [], ''s3cret''),
      (''HS256'', [(''expiresAt'', JInt 15000), (''accountNumber'', JInt 34567)], ''guess''),
      (''RS256'', [(''expiresAt'', JInt 15000), (''accountNumber'', JInt 34567)], ''s3cret'')]"

definition demo_split :: "string \<Rightarrow> (string \<times> string \<times> (string \<times> jval) list \<times> string) option" where
  "demo_split s = map_of (map demo_entry demo_wire) s"

definition demo_generate :: "string \<Rightarrow> nat \<Rightarrow> error + string" where
  "demo_generate pw cost =
     (if 72 < length pw then Inl ''bcrypt: password length exceeds 72 bytes''
      else Inr (''$2a$10$'' @ pw))"

definition demo_compare :: "string \<Rightarrow> string \<Rightarrow> error option" where
  "demo_compare h pw =
     (if h = ''$2a$10$'' @ pw then None
      else Some ''crypto/bcrypt: hashedPassword is not the hash of the given password'')"

definition demo :: extern where
  "demo =
     \<lparr>Getenv = (\<lambda>k. if k = ''JWT_SECRET'' then ''s3cret'' else []),
      rand_draw = 1234567,
      Now = ''2024-05-01T10:00:00Z'',
      Unix_now = 1714557600,
      GenerateFromPassword = demo_generate,
      CompareHashAndPassword = demo_compare,
      Decode_LoginRequest =
        (\<lambda>b. if b = ''{number:34567,password:pw1}''
              then Inr \<lparr>LoginRequest.Number = 34567, Password = ''pw1''\<rparr>
              else Inl ''unexpected end of JSON input''),
      Decode_CreateAccountRequest =
        (\<lambda>b. if b = ''{firstName:A,lastName:B,password:pw1}''
              then Inr \<lparr>CreateAccountRequest.FirstName = ''A'', LastName = ''B'', Password = ''pw1''\<rparr>
              else if b = ''{firstName:A,lastName:B,password:<73 bytes>}''
              then Inr \<lparr>CreateAccountRequest.FirstName = ''A'', LastName = ''B'',
                        Password = replicate 73 (CHR ''x'')\<rparr>
              else Inl ''unexpected end of JSON input''),
      Decode_TransferRequest =
        (\<lambda>b. if b = ''{toAccount:7,amount:250}''
              then Inr \<lparr>ToAccount = 7, Amount = 250\<rparr>
              else Inl ''unexpected end of JSON input''),
      hmac = demo_hmac,
      signing_string = demo_signing_string,
      split_token = demo_split\<rparr>"

text \<open>A store with two accounts, and a world with a fresh writer over it.\<close>

definition alice :: Account where
  "alice = \<lparr>ID = 1, FirstName = ''A'', LastName = ''B'', Number = 34567, Balance = 0,
            CreatedAt = ''2024-05-01T10:00:00Z'', EncryptedPassword = ''$2a$10$pw1''\<rparr>"

definition bob :: Account where
  "bob = \<lparr>ID = 2, FirstName = ''C'', LastName = ''D'', Number = 77, Balance = 0,
          CreatedAt = ''2024-05-02T10:00:00Z'', EncryptedPassword = ''$2a$10$pw2''\<rparr>"

definition demo_store :: PostgresStore where
  "demo_store = \<lparr>rows = [alice, bob], serial = 3, fault = None, qlog = []\<rparr>"

definition demo_world :: world where
  "demo_world = \<lparr>rw = new_writer, store = demo_store\<rparr>"

definition request :: "string \<Rightarrow> route \<Rightarrow> string \<Rightarrow> string \<Rightarrow> Request" where
  "request m rt tok b =
     \<lparr>Request.Method = m, Route = rt,
      Header = (if tok = [] then [] else [(''x-jwt-token'', tok)]), Body = b\<rparr>"

text \<open>The same environment with \<open>JWT_SECRET\<close> not set.\<close>

definition demo_unset :: extern where
  "demo_unset = demo\<lparr>Getenv := (\<lambda>k. [])\<rparr>"

text \<open>
  Tokens of the demo wire: the one issued to \<open>alice\<close>, and one that verifies under
  the secret and carries no claims. \<open>dave\<close> is the account \<open>NewAccount\<close> builds in the
  demo environment; the draw gives him the number \<open>alice\<close> has, and so the same token.
\<close>

definition alice_token :: string where
  "alice_token = demo_token ''HS256'' [(''expiresAt'', JInt 15000), (''accountNumber'', JInt 34567)] ''s3cret''"

definition unbound_token :: string where
  "unbound_token = demo_token ''HS256'' [] ''s3cret''"

definition dave :: Account where
  "dave = \<lparr>ID = 0, FirstName = ''A'', LastName = ''B'', Number = 34567, Balance = 0,
           CreatedAt = ''2024-05-01T10:00:00Z'', EncryptedPassword = ''$2a$10$pw1''\<rparr>"

section \<open>Basic facts about the handlers\<close>

lemma WriteJSON_new_writer: "WriteJSON new_writer st v = (None, response st v)"
  by (simp add: WriteJSON_def WriteHeader_def new_writer_def response_def)

lemma WriteJSON_no_error: "fst (WriteJSON w st v) = None"
  by (simp add: WriteJSON_def Let_def)

lemma PermissionsDenied_new_writer:
  "PermissionsDenied new_writer = response 403 (JObj [(''error'', JStr ''Permission denied'')])"
  by (simp add: PermissionsDenied_def WriteJSON_new_writer StatusForbidden_def APIError_def)

lemma makeHTTPHandleFunc_error:
  "f r wd = Ret (Some err, wd') \<Longrightarrow>
   makeHTTPHandleFunc f r wd = Ret (wd'\<lparr>rw := snd (WriteJSON (rw wd') StatusBadRequest (APIError err))\<rparr>)"
  by (simp add: makeHTTPHandleFunc_def)

lemma makeHTTPHandleFunc_nil: "f r wd = Ret (None, wd') \<Longrightarrow> makeHTTPHandleFunc f r wd = Ret wd'"
  by (simp add: makeHTTPHandleFunc_def)

lemma makeHTTPHandleFunc_panic: "f r wd = Panic p \<Longrightarrow> makeHTTPHandleFunc f r wd = Panic p"
  by (simp add: makeHTTPHandleFunc_def)

text \<open>A handler that returns an error has not touched the writer.\<close>

lemma HandleGetAccount_error: "HandleGetAccount r wd = Ret (Some err, wd') \<Longrightarrow> rw wd' = rw wd"
  by (auto simp: HandleGetAccount_def WriteJSON_def Let_def split: prod.splits sum.splits)

lemma HandleGetAccountByID_error: "HandleGetAccountByID r wd = Ret (Some err, wd') \<Longrightarrow> rw wd' = rw wd"
  by (auto simp: HandleGetAccountByID_def WriteJSON_def Let_def split: prod.splits sum.splits)

lemma HandleDeleteAccount_error: "HandleDeleteAccount r wd = Ret (Some err, wd') \<Longrightarrow> rw wd' = rw wd"
  by (auto simp: HandleDeleteAccount_def WriteJSON_def Let_def split: prod.splits sum.splits option.splits)

lemma HandleCreateAccount_error: "HandleCreateAccount X r wd = Ret (Some err, wd') \<Longrightarrow> rw wd' = rw wd"
  by (auto simp: HandleCreateAccount_def WriteJSON_def Let_def split: prod.splits sum.splits option.splits res.splits)

lemma HandleTransferToAccount_error: "HandleTransferToAccount X r wd = Ret (Some err, wd') \<Longrightarrow> rw wd' = rw wd"
  by (auto simp: HandleTransferToAccount_def WriteJSON_def Let_def split: prod.splits sum.splits option.splits res.splits)

lemma HandleLogin_error: "HandleLogin X r wd = Ret (Some err, wd') \<Longrightarrow> rw wd' = rw wd"
  by (auto simp: HandleLogin_def WriteJSON_def Let_def split: prod.splits sum.splits option.splits res.splits if_splits)

lemma HandleAccount_error: "HandleAccount X r wd = Ret (Some err, wd') \<Longrightarrow> rw wd' = rw wd"
  by (auto simp: HandleAccount_def dest: HandleGetAccount_error HandleCreateAccount_error split: if_splits)

lemma HandleTransfer_error: "HandleTransfer X r wd = Ret (Some err, wd') \<Longrightarrow> rw wd' = rw wd"
  by (auto simp: HandleTransfer_def dest: HandleGetAccount_error HandleTransferToAccount_error HandleDeleteAccount_error split: if_splits)

lemma HandleSingleAccount_error: "HandleSingleAccount r wd = Ret (Some err, wd') \<Longrightarrow> rw wd' = rw wd"
  by (auto simp: HandleSingleAccount_def dest: HandleGetAccountByID_error HandleDeleteAccount_error split: if_splits)


lemma HandleGetAccount_ok:
  "HandleGetAccount r wd = Ret (None, wd') \<Longrightarrow> \<exists>v. rw wd' = snd (WriteJSON (rw wd) StatusOK v)"
  by (auto simp: HandleGetAccount_def split: prod.splits sum.splits) (metis snd_conv)+

lemma HandleGetAccountByID_ok:
  "HandleGetAccountByID r wd = Ret (None, wd') \<Longrightarrow> \<exists>v. rw wd' = snd (WriteJSON (rw wd) StatusOK v)"
  by (auto simp: HandleGetAccountByID_def split: prod.splits sum.splits) (metis snd_conv)+

lemma HandleDeleteAccount_ok:
  "HandleDeleteAccount r wd = Ret (None, wd') \<Longrightarrow> \<exists>v. rw wd' = snd (WriteJSON (rw wd) StatusOK v)"
  by (auto simp: HandleDeleteAccount_def split: prod.splits sum.splits option.splits) (metis snd_conv)+

lemma HandleCreateAccount_ok:
  "HandleCreateAccount X r wd = Ret (None, wd') \<Longrightarrow> \<exists>v. rw wd' = snd (WriteJSON (rw wd) StatusOK v)"
  by (auto simp: HandleCreateAccount_def Let_def split: prod.splits sum.splits option.splits res.splits) (metis snd_conv)+

lemma HandleTransferToAccount_ok:
  "HandleTransferToAccount X r wd = Ret (None, wd') \<Longrightarrow> \<exists>v. rw wd' = snd (WriteJSON (rw wd) StatusOK v)"
  by (auto simp: HandleTransferToAccount_def split: prod.splits sum.splits) (metis snd_conv)+

lemma HandleLogin_ok:
  "HandleLogin X r wd = Ret (None, wd') \<Longrightarrow>
   (\<exists>v. rw wd' = snd (WriteJSON (rw wd) StatusOK v)) \<or> rw wd' = PermissionsDenied (rw wd)"
  by (auto simp: HandleLogin_def Let_def split: prod.splits sum.splits if_splits) (metis snd_conv)+

lemma HandleAccount_ok:
  "HandleAccount X r wd = Ret (None, wd') \<Longrightarrow> \<exists>v. rw wd' = snd (WriteJSON (rw wd) StatusOK v)"
  by (auto simp: HandleAccount_def dest: HandleGetAccount_ok HandleCreateAccount_ok split: if_splits)

lemma HandleTransfer_ok:
  "HandleTransfer X r wd = Ret (None, wd') \<Longrightarrow> \<exists>v. rw wd' = snd (WriteJSON (rw wd) StatusOK v)"
  by (auto simp: HandleTransfer_def dest: HandleGetAccount_ok HandleTransferToAccount_ok HandleDeleteAccount_ok split: if_splits)

lemma HandleSingleAccount_ok:
  "HandleSingleAccount r wd = Ret (None, wd') \<Longrightarrow> \<exists>v. rw wd' = snd (WriteJSON (rw wd) StatusOK v)"
  by (auto simp: HandleSingleAccount_def dest: HandleGetAccountByID_ok HandleDeleteAccount_ok split: if_splits)

text \<open>The gate, as a function of its five checks.\<close>

lemma withJWTAuth_eq:
  "withJWTAuth X h r wd =
     (if Header_Get r ''x-jwt-token'' = [] then Ret (wd\<lparr>rw := PermissionsDenied (rw wd)\<rparr>)
      else case validateJWT X (Header_Get r ''x-jwt-token'') of
        Inl e \<Rightarrow> Ret (wd\<lparr>rw := PermissionsDenied (rw wd)\<rparr>)
      | Inr token \<Rightarrow>
         (case getID r of
            Inl e \<Rightarrow> Ret (wd\<lparr>rw := PermissionsDenied (rw wd)\<rparr>)
          | Inr userID \<Rightarrow>
             (case fst (GetAccountByID userID (store wd)) of
                Inl e \<Rightarrow> Ret (wd\<lparr>rw := PermissionsDenied (rw wd), store := snd (GetAccountByID userID (store wd))\<rparr>)
              | Inr account \<Rightarrow>
                 (case bound_number token of
                    None \<Rightarrow> Panic (''interface conversion: interface {} is '' @
                               (case claim (Claims token) ''accountNumber'' of None \<Rightarrow> ''nil'' | Some v \<Rightarrow> type_name v)
                               @ '', not float64'')
                  | Some n \<Rightarrow>
                     (if Account.Number account \<noteq> n
                      then Ret (wd\<lparr>rw := PermissionsDenied (rw wd), store := snd (GetAccountByID userID (store wd))\<rparr>)
                      else h r (wd\<lparr>store := snd (GetAccountByID userID (store wd))\<rparr>))))))"
  by (auto simp: withJWTAuth_def bound_number_def Let_def split: sum.splits prod.splits option.splits iface.splits)

lemma GetAccountByID_store:
  "snd (GetAccountByID i s) = s\<lparr>qlog := qlog s @ [''SELECT * FROM account WHERE ID = $1'']\<rparr>"
  by (auto simp: GetAccountByID_def Query_def split: option.splits)

lemma GetAccountByID_result:
  "fst (GetAccountByID i s) =
     (case fault s of
        Some e \<Rightarrow> Inl e
      | None \<Rightarrow> (case find (\<lambda>a. ID a = i) (rows s) of
                   Some a \<Rightarrow> Inr a
                 | None \<Rightarrow> Inl (''Account '' @ string_of_int i @ '' not found'')))"
  by (auto simp: GetAccountByID_def Query_def split: option.splits)

lemma withJWTAuth_shape:
  assumes "withJWTAuth X h r wd = Ret wd'"
  shows "rw wd' = PermissionsDenied (rw wd) \<or> (\<exists>s'. h r (wd\<lparr>store := s'\<rparr>) = Ret wd')"
  using assms unfolding withJWTAuth_eq
  by (auto split: if_splits sum.splits option.splits)

lemma makeHTTPHandleFunc_shape:
  assumes "makeHTTPHandleFunc f r wd = Ret wd'"
  shows "(\<exists>err wd1. f r wd = Ret (Some err, wd1) \<and> rw wd' = snd (WriteJSON (rw wd1) StatusBadRequest (APIError err)))
       \<or> f r wd = Ret (None, wd')"
  using assms by (auto simp: makeHTTPHandleFunc_def split: res.splits option.splits prod.splits)

lemma Run_response_shape:
  assumes "Run X r wd = Ret wd'" and "rw wd = new_writer"
  shows "(\<exists>v. rw wd' = response 200 v)
       \<or> (\<exists>err. rw wd' = response 400 (JObj [(''error'', JStr err)]))
       \<or> rw wd' = response 403 (JObj [(''error'', JStr ''Permission denied'')])"
proof (cases "Route r")
  case Login
  with assms have "makeHTTPHandleFunc (HandleLogin X) r wd = Ret wd'" by (simp add: Run_def)
  from makeHTTPHandleFunc_shape [OF this] assms(2) show ?thesis
    by (auto dest!: HandleLogin_error HandleLogin_ok
             simp: WriteJSON_new_writer PermissionsDenied_new_writer StatusOK_def StatusBadRequest_def APIError_def)
next
  case Accounts
  with assms have "makeHTTPHandleFunc (HandleAccount X) r wd = Ret wd'" by (simp add: Run_def)
  from makeHTTPHandleFunc_shape [OF this] assms(2) show ?thesis
    by (auto dest!: HandleAccount_error HandleAccount_ok
             simp: WriteJSON_new_writer StatusOK_def StatusBadRequest_def APIError_def)
next
  case (SingleAccount c cs)
  with assms have "withJWTAuth X (makeHTTPHandleFunc HandleSingleAccount) r wd = Ret wd'"
    by (simp add: Run_def)
  from withJWTAuth_shape [OF this] show ?thesis
  proof
    assume "rw wd' = PermissionsDenied (rw wd)"
    with assms(2) show ?thesis by (simp add: PermissionsDenied_new_writer)
  next
    assume "\<exists>s'. makeHTTPHandleFunc HandleSingleAccount r (wd\<lparr>store := s'\<rparr>) = Ret wd'"
    then obtain s' where "makeHTTPHandleFunc HandleSingleAccount r (wd\<lparr>store := s'\<rparr>) = Ret wd'" ..
    from makeHTTPHandleFunc_shape [OF this] assms(2) show ?thesis
      by (auto dest!: HandleSingleAccount_error HandleSingleAccount_ok
               simp: WriteJSON_new_writer StatusOK_def StatusBadRequest_def APIError_def)
  qed
next
  case Transfer
  with assms have "makeHTTPHandleFunc (HandleTransfer X) r wd = Ret wd'" by (simp add: Run_def)
  from makeHTTPHandleFunc_shape [OF this] assms(2) show ?thesis
    by (auto dest!: HandleTransfer_error HandleTransfer_ok
             simp: WriteJSON_new_writer StatusOK_def StatusBadRequest_def APIError_def)
qed


text \<open>The gate, check by check, in the order of the source.\<close>

lemma gate_header_missing:
  assumes "Header_Get r ''x-jwt-token'' = []"
  shows "withJWTAuth X h r wd = Ret (wd\<lparr>rw := PermissionsDenied (rw wd)\<rparr>)"
  using assms by (subst withJWTAuth_eq) simp

lemma gate_token_invalid:
  assumes "validateJWT X (Header_Get r ''x-jwt-token'') = Inl e"
  shows "withJWTAuth X h r wd = Ret (wd\<lparr>rw := PermissionsDenied (rw wd)\<rparr>)"
  using assms by (subst withJWTAuth_eq) simp

lemma gate_id_invalid:
  assumes "getID r = Inl e"
  shows "withJWTAuth X h r wd = Ret (wd\<lparr>rw := PermissionsDenied (rw wd)\<rparr>)"
  using assms by (subst withJWTAuth_eq) (simp split: sum.splits)

lemma gate_lookup_failed:
  assumes "Header_Get r ''x-jwt-token'' \<noteq> []"
    and "validateJWT X (Header_Get r ''x-jwt-token'') = Inr token"
    and "getID r = Inr userID"
    and "fst (GetAccountByID userID (store wd)) = Inl e"
  shows "withJWTAuth X h r wd =
           Ret (wd\<lparr>rw := PermissionsDenied (rw wd),
                    store := (store wd)\<lparr>qlog := qlog (store wd) @ [''SELECT * FROM account WHERE ID = $1'']\<rparr>\<rparr>)"
  using assms by (subst withJWTAuth_eq) (simp add: GetAccountByID_store)

lemma gate_number_mismatch:
  assumes "Header_Get r ''x-jwt-token'' \<noteq> []"
    and "validateJWT X (Header_Get r ''x-jwt-token'') = Inr token"
    and "getID r = Inr userID"
    and "fst (GetAccountByID userID (store wd)) = Inr account"
    and "bound_number token = Some n"
    and "Account.Number account \<noteq> n"
  shows "withJWTAuth X h r wd =
           Ret (wd\<lparr>rw := PermissionsDenied (rw wd),
                    store := (store wd)\<lparr>qlog := qlog (store wd) @ [''SELECT * FROM account WHERE ID = $1'']\<rparr>\<rparr>)"
  using assms by (subst withJWTAuth_eq) (simp add: GetAccountByID_store)

lemma gate_passes:
  assumes "Header_Get r ''x-jwt-token'' \<noteq> []"
    and "validateJWT X (Header_Get r ''x-jwt-token'') = Inr token"
    and "getID r = Inr userID"
    and "fst (GetAccountByID userID (store wd)) = Inr account"
    and "bound_number token = Some (Account.Number account)"
  shows "withJWTAuth X h r wd =
           h r (wd\<lparr>store := (store wd)\<lparr>qlog := qlog (store wd) @ [''SELECT * FROM account WHERE ID = $1'']\<rparr>\<rparr>)"
  using assms by (subst withJWTAuth_eq) (simp add: GetAccountByID_store)

lemma gate_unbound_token:
  assumes "Header_Get r ''x-jwt-token'' \<noteq> []"
    and "validateJWT X (Header_Get r ''x-jwt-token'') = Inr token"
    and "getID r = Inr userID"
    and "fst (GetAccountByID userID (store wd)) = Inr account"
    and "bound_number token = None"
  shows "withJWTAuth X h r wd =
           Panic (''interface conversion: interface {} is '' @
                  (case claim (Claims token) ''accountNumber'' of None \<Rightarrow> ''nil'' | Some v \<Rightarrow> type_name v)
                  @ '', not float64'')"
  using assms by (subst withJWTAuth_eq) simp

text \<open>What a request can do to the rows of the table.\<close>

lemma Query_rows: "rows (snd (Query q s)) = rows s"
  by (simp add: Query_def)

lemma GetAccounts_rows: "rows (snd (GetAccounts s)) = rows s"
  by (auto simp: GetAccounts_def Query_def split: option.splits)

lemma GetAccountByNumber_rows: "rows (snd (GetAccountByNumber n s)) = rows s"
  by (auto simp: GetAccountByNumber_def Query_def split: option.splits)

lemma GetAccountByID_rows: "rows (snd (GetAccountByID i s)) = rows s"
  by (simp add: GetAccountByID_store)

lemma DeleteAccount_rows: "set (rows (snd (DeleteAccount i s))) \<subseteq> set (rows s)"
  by (auto simp: DeleteAccount_def Query_def split: option.splits)

lemma CreateAccount_rows:
  "CreateAccount a s = Ret (e, s') \<Longrightarrow>
   rows s' = rows s \<or> (\<exists>b. a = Some b \<and> rows s' = rows s @ [b\<lparr>ID := serial s\<rparr>])"
  by (auto simp: CreateAccount_def Query_def split: option.splits)

lemma HandleGetAccount_rows: "HandleGetAccount r wd = Ret (e, wd') \<Longrightarrow> rows (store wd') = rows (store wd)"
  using GetAccounts_rows [of "store wd"]
  by (auto simp: HandleGetAccount_def split: prod.splits sum.splits)

lemma HandleGetAccountByID_rows:
  "HandleGetAccountByID r wd = Ret (e, wd') \<Longrightarrow> rows (store wd') = rows (store wd)"
  by (auto simp: HandleGetAccountByID_def split: prod.splits sum.splits
      dest: arg_cong [where f = "\<lambda>p. rows (snd p)"] simp: GetAccountByID_rows)

lemma HandleDeleteAccount_rows:
  "HandleDeleteAccount r wd = Ret (e, wd') \<Longrightarrow> set (rows (store wd')) \<subseteq> set (rows (store wd))"
  by (auto simp: HandleDeleteAccount_def DeleteAccount_def Query_def split: prod.splits sum.splits option.splits)

lemma HandleTransferToAccount_store:
  "HandleTransferToAccount X r wd = Ret (e, wd') \<Longrightarrow> store wd' = store wd"
  by (auto simp: HandleTransferToAccount_def split: prod.splits sum.splits)

lemma HandleLogin_rows: "HandleLogin X r wd = Ret (e, wd') \<Longrightarrow> rows (store wd') = rows (store wd)"
  by (auto simp: HandleLogin_def GetAccountByNumber_def Query_def Let_def
      split: prod.splits sum.splits option.splits if_splits)

lemma HandleCreateAccount_rows:
  assumes "HandleCreateAccount X r wd = Ret (e, wd')" and "a \<in> set (rows (store wd'))"
  shows "a \<in> set (rows (store wd))
       \<or> (\<exists>req b. Decode_CreateAccountRequest X (Body r) = Inr req
            \<and> NewAccount X (CreateAccountRequest.FirstName req) (CreateAccountRequest.LastName req)
                 (CreateAccountRequest.Password req) = (Some b, None)
            \<and> a = b\<lparr>ID := serial (store wd)\<rparr>)"
proof (cases "Decode_CreateAccountRequest X (Body r)")
  case (Inl err)
  with assms show ?thesis by (simp add: HandleCreateAccount_def)
next
  case (Inr req)
  let ?n = "NewAccount X (CreateAccountRequest.FirstName req) (CreateAccountRequest.LastName req)
              (CreateAccountRequest.Password req)"
  show ?thesis
  proof (cases "fst ?n")
    case None
    with assms(1) Inr show ?thesis by (simp add: HandleCreateAccount_def CreateAccount_def)
  next
    case (Some b)
    then have n: "?n = (Some b, None)"
      by (auto simp: NewAccount_def split: sum.splits)
    from assms(1) Inr Some obtain e' s' where c: "CreateAccount (Some b) (store wd) = Ret (e', s')"
      and s: "store wd' = s'"
      by (auto simp: HandleCreateAccount_def Let_def split: res.splits option.splits prod.splits)
    from CreateAccount_rows [OF c] assms(2) s
    have "a \<in> set (rows (store wd)) \<or> a = b\<lparr>ID := serial (store wd)\<rparr>" by auto
    with Inr n show ?thesis by blast
  qed
qed

lemma makeHTTPHandleFunc_store:
  assumes "makeHTTPHandleFunc f r wd = Ret wd'"
  shows "\<exists>e wd1. f r wd = Ret (e, wd1) \<and> store wd' = store wd1"
  using assms by (auto simp: makeHTTPHandleFunc_def split: res.splits option.splits prod.splits)

lemma withJWTAuth_store:
  assumes "withJWTAuth X h r wd = Ret wd'"
  shows "rows (store wd') = rows (store wd)
       \<or> (\<exists>s'. rows s' = rows (store wd) \<and> serial s' = serial (store wd) \<and> h r (wd\<lparr>store := s'\<rparr>) = Ret wd')"
  using assms unfolding withJWTAuth_eq
  by (auto simp: GetAccountByID_store split: if_splits sum.splits option.splits)

lemma Run_rows:
  assumes "Run X r wd = Ret wd'" and "a \<in> set (rows (store wd'))"
  shows "a \<in> set (rows (store wd))
       \<or> (\<exists>req b. Decode_CreateAccountRequest X (Body r) = Inr req
            \<and> NewAccount X (CreateAccountRequest.FirstName req) (CreateAccountRequest.LastName req)
                 (CreateAccountRequest.Password req) = (Some b, None)
            \<and> a = b\<lparr>ID := serial (store wd)\<rparr>)"
proof (cases "Route r")
  case Login
  with assms(1) have "makeHTTPHandleFunc (HandleLogin X) r wd = Ret wd'" by (simp add: Run_def)
  from makeHTTPHandleFunc_store [OF this] assms(2) show ?thesis
    by (auto dest: HandleLogin_rows)
next
  case Accounts
  with assms(1) have "makeHTTPHandleFunc (HandleAccount X) r wd = Ret wd'" by (simp add: Run_def)
  from makeHTTPHandleFunc_store [OF this]
  obtain e wd1 where h: "HandleAccount X r wd = Ret (e, wd1)" and s: "store wd' = store wd1" by blast
  show ?thesis
  proof (cases "Request.Method r = ''POST''")
    case True
    with h have "HandleCreateAccount X r wd = Ret (e, wd1)" by (simp add: HandleAccount_def)
    from HandleCreateAccount_rows [OF this] assms(2) s show ?thesis by simp
  next
    case False
    with h have "rows (store wd1) = rows (store wd)"
      by (auto simp: HandleAccount_def dest: HandleGetAccount_rows split: if_splits)
    with assms(2) s show ?thesis by simp
  qed
next
  case (SingleAccount c cs)
  with assms(1) have "withJWTAuth X (makeHTTPHandleFunc HandleSingleAccount) r wd = Ret wd'"
    by (simp add: Run_def)
  from withJWTAuth_store [OF this] show ?thesis
  proof
    assume "rows (store wd') = rows (store wd)"
    with assms(2) show ?thesis by simp
  next
    assume "\<exists>s'. rows s' = rows (store wd) \<and> serial s' = serial (store wd)
              \<and> makeHTTPHandleFunc HandleSingleAccount r (wd\<lparr>store := s'\<rparr>) = Ret wd'"
    then obtain s' where r: "rows s' = rows (store wd)"
      and m: "makeHTTPHandleFunc HandleSingleAccount r (wd\<lparr>store := s'\<rparr>) = Ret wd'" by blast
    from makeHTTPHandleFunc_store [OF m]
    obtain e wd1 where h: "HandleSingleAccount r (wd\<lparr>store := s'\<rparr>) = Ret (e, wd1)"
      and s: "store wd' = store wd1" by blast
    from h have "set (rows (store wd1)) \<subseteq> set (rows (store (wd\<lparr>store := s'\<rparr>)))"
      by (auto simp: HandleSingleAccount_def dest!: HandleGetAccountByID_rows HandleDeleteAccount_rows
          split: if_splits)
    with assms(2) s r show ?thesis by auto
  qed
next
  case Transfer
  with assms(1) have "makeHTTPHandleFunc (HandleTransfer X) r wd = Ret wd'" by (simp add: Run_def)
  from makeHTTPHandleFunc_store [OF this]
  obtain e wd1 where h: "HandleTransfer X r wd = Ret (e, wd1)" and s: "store wd' = store wd1" by blast
  from h have "set (rows (store wd1)) \<subseteq> set (rows (store wd))"
    by (auto simp: HandleTransfer_def
        dest!: HandleGetAccount_rows HandleDeleteAccount_rows HandleTransferToAccount_store
        split: if_splits)
  with assms(2) s show ?thesis by auto
qed

section \<open>Numbers: \<open>int64\<close>, \<open>float64\<close> and the allocator\<close>

lemma bit_length_le: "a < 2 ^ k \<Longrightarrow> bit_length a \<le> k"
proof (induction k arbitrary: a)
  case 0
  then show ?case by (simp add: bit_length.simps)
next
  case (Suc k)
  then have "a div 2 < 2 ^ k" by simp
  from Suc.IH [OF this] show ?case
    by (subst bit_length.simps) simp
qed

lemma bit_length_ge: "2 ^ k \<le> a \<Longrightarrow> k < bit_length a"
proof (induction k arbitrary: a)
  case 0
  then show ?case by (subst bit_length.simps) simp
next
  case (Suc k)
  then have "2 ^ k \<le> a div 2" by simp
  from Suc.IH [OF this] have "k < bit_length (a div 2)" .
  moreover have "0 < a" using Suc.prems by (smt (verit) zero_less_power)
  ultimately show ?case
    by (subst bit_length.simps) simp
qed

lemma bit_length_54: "2 ^ 53 \<le> a \<Longrightarrow> a < 2 ^ 54 \<Longrightarrow> bit_length a = 54"
  using bit_length_le [of a 54] bit_length_ge [of 53 a] by simp

lemma round_to_53_small: "a < 2 ^ 53 \<Longrightarrow> round_to_53 a = a"
  using bit_length_le [of a 53] by (simp add: round_to_53_def)

lemma round_to_53_exact: "0 \<le> a \<Longrightarrow> a \<le> 2 ^ 53 \<Longrightarrow> round_to_53 a = a"
proof (cases "a < 2 ^ 53")
  case True
  then show ?thesis by (rule round_to_53_small)
next
  case False
  assume "a \<le> 2 ^ 53"
  with False have a: "a = 2 ^ 53" by simp
  have "bit_length a = 54" unfolding a by (rule bit_length_54) simp_all
  then show ?thesis by (simp add: round_to_53_def a)
qed

lemma float64_of_int_exact: "- (2 ^ 53) \<le> n \<Longrightarrow> n \<le> 2 ^ 53 \<Longrightarrow> float64_of_int n = Some n"
proof -
  assume "- (2 ^ 53) \<le> n" "n \<le> 2 ^ 53"
  then have "round_to_53 \<bar>n\<bar> = \<bar>n\<bar>" by (intro round_to_53_exact) auto
  moreover have "\<bar>n\<bar> < 2 ^ 1024" using \<open>- (2 ^ 53) \<le> n\<close> \<open>n \<le> 2 ^ 53\<close> by simp
  ultimately show ?thesis by (auto simp: float64_of_int_def Let_def)
qed

lemma float64_of_int_2_53_plus_1: "float64_of_int 9007199254740993 = Some 9007199254740992"
proof -
  have "bit_length 9007199254740993 = 54" by (rule bit_length_54) simp_all
  then show ?thesis by (simp add: float64_of_int_def round_to_53_def)
qed

lemma int64_of_float64_sint: "int64_of_float64 (sint w) = w"
  using sint_ge [of w] sint_lt [of w] by (simp add: int64_of_float64_def)

lemma sint_of_nat_small: "n < 100000 \<Longrightarrow> sint (of_nat n :: 64 word) = int n"
proof -
  assume "n < 100000"
  then have "- (2 ^ 63) \<le> int n" and "int n < 2 ^ 63" by simp_all
  then have "signed_take_bit 63 (int n) = int n" by (rule signed_take_bit_int_eq_self)
  then show ?thesis by (simp add: signed_of_nat)
qed

lemma NewAccount_number:
  assumes "NewAccount X firstname lastname password = (Some a, e)"
  shows "sint (Account.Number a) = int (rand_draw X mod 100000)"
  using assms
  by (auto simp: NewAccount_def Intn_def sint_of_nat_small split: sum.splits)

section \<open>Tokens\<close>

lemma decode_issued_claims:
  assumes "- (2 ^ 53) \<le> sint (Account.Number account)" and "sint (Account.Number account) \<le> 2 ^ 53"
  shows "decode_members (issued_claims account)
         = Some [(''accountNumber'', IFloat64 (sint (Account.Number account))), (''expiresAt'', IFloat64 15000)]"
  using float64_of_int_exact [OF assms] float64_of_int_exact [of 15000]
  by (simp add: issued_claims_def)

lemma createJWT_eq:
  "createJWT X account =
     Inr (signing_string X ''HS256'' (issued_claims account) @ ''.'' @
          hmac X ''HS256'' (Getenv X ''JWT_SECRET'') (signing_string X ''HS256'' (issued_claims account)))"
  by (simp add: createJWT_def SignedString_def NewWithClaims_def SigningMethodHS256_def Method_Sign_def
      Let_def issued_claims_def)

lemma round_trip_in_range:
  assumes wf: "wire_faithful X account"
    and lo: "- (2 ^ 53) \<le> sint (Account.Number account)"
    and hi: "sint (Account.Number account) \<le> 2 ^ 53"
  shows "\<exists>tokenString token.
      createJWT X account = Inr tokenString
      \<and> validateJWT X tokenString = Inr token
      \<and> bound_number token = Some (Account.Number account)"
proof -
  let ?sstr = "signing_string X ''HS256'' (issued_claims account)"
  let ?sig = "hmac X ''HS256'' (Getenv X ''JWT_SECRET'') ?sstr"
  let ?claims = "[(''accountNumber'', IFloat64 (sint (Account.Number account))), (''expiresAt'', IFloat64 15000)]"
  let ?token = "\<lparr>Raw = ?sstr @ ''.'' @ ?sig, Method = SigningMethodHMAC ''HS256'', Claims = ?claims,
                  Signature = ?sig, Valid = True\<rparr>"
  have split: "split_token X (?sstr @ ''.'' @ ?sig) = Some (?sstr, ''HS256'', issued_claims account, ?sig)"
    using wf by (simp add: wire_faithful_def Let_def)
  have valid: "MapClaims_Valid X ?claims = None"
    by (simp add: MapClaims_Valid_def verify_from_def verify_exp_def claim_def)
  have "validateJWT X (?sstr @ ''.'' @ ?sig) = Inr ?token"
    using split decode_issued_claims [OF lo hi] valid
    by (simp add: validateJWT_def Parse_def GetSigningMethod_def Method_Verify_def Let_def)
  moreover have "bound_number ?token = Some (Account.Number account)"
    by (simp add: bound_number_def claim_def int64_of_float64_sint)
  ultimately show ?thesis
    using createJWT_eq by blast
qed

section \<open>Credentials\<close>

text \<open>
  What the repository does with \<open>bcrypt\<close>, whatever \<open>bcrypt\<close> computes: the stored
  hash is the output of \<open>GenerateFromPassword\<close>; \<open>ValidatePW\<close> is true exactly when
  \<open>CompareHashAndPassword\<close> returns no error, so a wrong password is the value
  \<open>False\<close> and a login with it is the error \<open>failed to login\<close>; and the JSON of an account
  does not depend on its hash.
\<close>

lemma NewAccount_stores_hash:
  "NewAccount X firstname lastname password = (Some a, e) \<Longrightarrow>
   GenerateFromPassword X password DefaultCost = Inr (EncryptedPassword a) \<and> e = None"
  by (auto simp: NewAccount_def split: sum.splits)

lemma NewAccount_ValidatePW:
  "NewAccount X firstname lastname password = (Some a, e) \<Longrightarrow>
   ValidatePW X a pw =
     (\<exists>h. GenerateFromPassword X password DefaultCost = Inr h \<and> CompareHashAndPassword X h pw = None)"
  by (auto simp: NewAccount_def ValidatePW_def split: sum.splits)

lemma HandleLogin_wrong_password:
  assumes "Request.Method r = ''POST''" and "Decode_LoginRequest X (Body r) = Inr req"
    and "fst (GetAccountByNumber (sint (LoginRequest.Number req)) (store wd)) = Inr acc"
    and "\<not> ValidatePW X acc (LoginRequest.Password req)"
  shows "HandleLogin X r wd =
           Ret (Some ''failed to login'',
                wd\<lparr>store := snd (GetAccountByNumber (sint (LoginRequest.Number req)) (store wd))\<rparr>)"
  using assms by (auto simp: HandleLogin_def split: prod.splits sum.splits)

lemma Account_json_omits_hash: "Account_json (a\<lparr>EncryptedPassword := h\<rparr>) = Account_json a"
  by (simp add: Account_json_def)

lemma Account_json_keys:
  "\<exists>ms. Account_json a = JObj ms
      \<and> map fst ms = [''id'', ''firstName'', ''lastName'', ''number'', ''balance'', ''createdat'']"
  by (simp add: Account_json_def)

section \<open>Runs in the demo environment\<close>

lemmas demo_codec_defs = demo_token_def demo_signing_string_def demo_member_def demo_hmac_def
  string_of_int_def digit_def

lemma alice_token_text:
  "alice_token = ''HS256.expiresAt=15000;accountNumber=34567;.hmac(HS256,s3cret,HS256.expiresAt=15000;accountNumber=34567;)''"
  by (simp add: alice_token_def demo_codec_defs)

lemma unbound_token_text: "unbound_token = ''HS256..hmac(HS256,s3cret,HS256.)''"
  by (simp add: unbound_token_def demo_codec_defs)

lemma demo_split_alice:
  "demo_split alice_token =
     Some (''HS256.expiresAt=15000;accountNumber=34567;'', ''HS256'',
           [(''expiresAt'', JInt 15000), (''accountNumber'', JInt 34567)],
           ''hmac(HS256,s3cret,HS256.expiresAt=15000;accountNumber=34567;)'')"
  by (simp add: alice_token_text demo_split_def demo_wire_def demo_entry_def demo_codec_defs)

lemma demo_split_unbound:
  "demo_split unbound_token = Some (''HS256.'', ''HS256'', [], ''hmac(HS256,s3cret,HS256.)'')"
  by (simp add: unbound_token_text demo_split_def demo_wire_def demo_entry_def demo_codec_defs)

lemma wire_faithful_demo_dave: "wire_faithful demo dave"
  using demo_split_alice
  by (simp add: wire_faithful_def issued_claims_def demo_def dave_def alice_token_text demo_codec_defs)

lemma validateJWT_demo_unbound:
  "validateJWT demo unbound_token =
     Inr \<lparr>Raw = unbound_token, Method = SigningMethodHMAC ''HS256'', Claims = [],
          Signature = ''hmac(HS256,s3cret,HS256.)'', Valid = True\<rparr>"
  using demo_split_unbound
  by (simp add: validateJWT_def Parse_def GetSigningMethod_def Method_Verify_def Let_def demo_def
      demo_hmac_def MapClaims_Valid_def verify_from_def verify_exp_def claim_def)

lemma Header_Get_request: "Header_Get (request m rt tok b) ''x-jwt-token'' = tok"
  by (simp add: Header_Get_def request_def)

lemma unbound_token_nonempty: "unbound_token \<noteq> []"
  by (simp add: unbound_token_text)

lemma validateJWT_demo_alice:
  "validateJWT demo alice_token =
     Inr \<lparr>Raw = alice_token, Method = SigningMethodHMAC ''HS256'',
          Claims = [(''accountNumber'', IFloat64 34567), (''expiresAt'', IFloat64 15000)],
          Signature = ''hmac(HS256,s3cret,HS256.expiresAt=15000;accountNumber=34567;)'', Valid = True\<rparr>"
proof -
  have d: "decode_members [(''expiresAt'', JInt 15000), (''accountNumber'', JInt 34567)]
           = Some [(''accountNumber'', IFloat64 34567), (''expiresAt'', IFloat64 15000)]"
    using float64_of_int_exact [of 34567] float64_of_int_exact [of 15000] by simp
  show ?thesis
    using demo_split_alice d
    by (simp add: validateJWT_def Parse_def GetSigningMethod_def Method_Verify_def Let_def demo_def
        demo_hmac_def MapClaims_Valid_def verify_from_def verify_exp_def claim_def)
qed

lemma alice_token_nonempty: "alice_token \<noteq> []"
  by (simp add: alice_token_text)

lemma HandleTransfer_put:
  "HandleTransfer demo (request ''PUT'' Transfer [] []) demo_world = Ret (Some ''methods not allowed PUT'', demo_world)"
  by (simp add: HandleTransfer_def request_def)

lemma find_None_filter: "find P xs = None \<Longrightarrow> filter (\<lambda>a. \<not> P a) xs = xs"
  by (induction xs) (auto split: if_splits)

lemma HandleDeleteAccount_unknown_id:
  assumes "getID r = Inr i" and "fault (store wd) = None"
    and "find (\<lambda>a. ID a = i) (rows (store wd)) = None"
  shows "HandleDeleteAccount r wd =
           Ret (None, wd\<lparr>rw := snd (WriteJSON (rw wd) StatusOK (JObj [(''deleted:'', JInt i)])),
                          store := (store wd)\<lparr>qlog := qlog (store wd) @ [''DELETE FROM account WHERE ID = $1'']\<rparr>\<rparr>)"
  using assms find_None_filter [of "\<lambda>a. ID a = i" "rows (store wd)"]
  by (simp add: HandleDeleteAccount_def DeleteAccount_def Query_def WriteJSON_def Let_def)

lemma wire_faithful_demo_alice: "wire_faithful demo alice"
  using demo_split_alice
  by (simp add: wire_faithful_def issued_claims_def demo_def alice_def alice_token_text demo_codec_defs)

lemma Run_demo_create:
  "Run demo (request ''POST'' Accounts [] ''{firstName:A,lastName:B,password:pw1}'') demo_world
     = Ret \<lparr>rw = response 200 (Account_json dave),
            store = \<lparr>rows = [alice, bob, dave\<lparr>ID := 3\<rparr>], serial = 4, fault = None,
                     qlog = [''INSERT INTO account'']\<rparr>\<rparr>"
proof -
  have n: "NewAccount demo ''A'' ''B'' ''pw1'' = (Some dave, None)"
    by (simp add: NewAccount_def demo_def demo_generate_def Intn_def dave_def)
  have c: "CreateAccount (Some dave) demo_store
       = Ret (None, \<lparr>rows = [alice, bob, dave\<lparr>ID := 3\<rparr>], serial = 4, fault = None,
                     qlog = [''INSERT INTO account'']\<rparr>)"
    by (simp add: CreateAccount_def Query_def demo_store_def)
  have d: "Decode_CreateAccountRequest demo ''{firstName:A,lastName:B,password:pw1}''
           = Inr \<lparr>CreateAccountRequest.FirstName = ''A'', LastName = ''B'', Password = ''pw1''\<rparr>"
    by (simp add: demo_def)
  show ?thesis
    using n c d
    by (simp add: Run_def makeHTTPHandleFunc_def HandleAccount_def HandleCreateAccount_def
        request_def demo_world_def WriteJSON_new_writer StatusOK_def)
qed

lemma Run_demo_delete_alice:
  "Run demo (request ''DELETE'' (SingleAccount (CHR ''1'') []) alice_token []) demo_world
     = Ret \<lparr>rw = response 200 (JObj [(''deleted:'', JInt 1)]),
            store = \<lparr>rows = [bob], serial = 3, fault = None,
                     qlog = [''SELECT * FROM account WHERE ID = $1'',
                             ''DELETE FROM account WHERE ID = $1'']\<rparr>\<rparr>"
proof -
  let ?r = "request ''DELETE'' (SingleAccount (CHR ''1'') []) alice_token []"
  have h: "Header_Get ?r ''x-jwt-token'' \<noteq> []"
    by (simp add: Header_Get_request alice_token_nonempty)
  have v: "validateJWT demo (Header_Get ?r ''x-jwt-token'') =
     Inr \<lparr>Raw = alice_token, Method = SigningMethodHMAC ''HS256'',
          Claims = [(''accountNumber'', IFloat64 34567), (''expiresAt'', IFloat64 15000)],
          Signature = ''hmac(HS256,s3cret,HS256.expiresAt=15000;accountNumber=34567;)'', Valid = True\<rparr>"
    by (simp add: Header_Get_request validateJWT_demo_alice)
  have i: "getID ?r = Inr 1"
    by (simp add: getID_def URLParam_def request_def Atoi_def is_digit_def digit_value_def)
  have l: "fst (GetAccountByID 1 (store demo_world)) = Inr alice"
    by (simp add: GetAccountByID_result demo_world_def demo_store_def alice_def)
  have b: "bound_number
     \<lparr>Raw = alice_token, Method = SigningMethodHMAC ''HS256'',
      Claims = [(''accountNumber'', IFloat64 34567), (''expiresAt'', IFloat64 15000)],
      Signature = ''hmac(HS256,s3cret,HS256.expiresAt=15000;accountNumber=34567;)'', Valid = True\<rparr>
     = Some (Account.Number alice)"
    by (simp add: bound_number_def claim_def int64_of_float64_def alice_def)
  have m: "Request.Method ?r = ''DELETE''" by (simp add: request_def)
  have d: "HandleDeleteAccount ?r
             (demo_world\<lparr>store := (store demo_world)\<lparr>qlog := qlog (store demo_world)
                                        @ [''SELECT * FROM account WHERE ID = $1'']\<rparr>\<rparr>)
           = Ret (None, \<lparr>rw = response 200 (JObj [(''deleted:'', JInt 1)]),
                  store = \<lparr>rows = [bob], serial = 3, fault = None,
                     qlog = [''SELECT * FROM account WHERE ID = $1'',
                             ''DELETE FROM account WHERE ID = $1'']\<rparr>\<rparr>)"
    using i
    by (simp add: HandleDeleteAccount_def DeleteAccount_def Query_def demo_world_def demo_store_def
        WriteJSON_new_writer StatusOK_def alice_def bob_def)
  show ?thesis
    using gate_passes [OF h v i l b, of "makeHTTPHandleFunc HandleSingleAccount"] m d
    by (simp add: Run_def makeHTTPHandleFunc_def HandleSingleAccount_def)
       (simp add: request_def)
qed

lemma Run_numbers_allocated:
  assumes "numbers_allocated (store wd)" and "Run X r wd = Ret wd'"
  shows "numbers_allocated (store wd')"
  unfolding numbers_allocated_def list_all_iff
proof
  fix b
  assume "b \<in> set (rows (store wd'))"
  from Run_rows [OF assms(2) this]
  show "0 \<le> sint (Account.Number b) \<and> sint (Account.Number b) < 100000"
  proof
    assume "b \<in> set (rows (store wd))"
    with assms(1) show ?thesis by (simp add: numbers_allocated_def list_all_iff)
  next
    assume "\<exists>req c. Decode_CreateAccountRequest X (Body r) = Inr req
            \<and> NewAccount X (CreateAccountRequest.FirstName req) (CreateAccountRequest.LastName req)
                 (CreateAccountRequest.Password req) = (Some c, None)
            \<and> b = c\<lparr>ID := serial (store wd)\<rparr>"
    then obtain req c where "Decode_CreateAccountRequest X (Body r) = Inr req"
      and n: "NewAccount X (CreateAccountRequest.FirstName req)
        (CreateAccountRequest.LastName req) (CreateAccountRequest.Password req) = (Some c, None)"
      and b: "b = c\<lparr>ID := serial (store wd)\<rparr>" by blast
    from NewAccount_number [OF n] b show ?thesis by simp
  qed
qed

lemma round_trip_allocated:
  assumes "numbers_allocated s" and "account \<in> set (rows s)" and "wire_faithful X account"
  shows "\<exists>tokenString token.
      createJWT X account = Inr tokenString
      \<and> validateJWT X tokenString = Inr token
      \<and> bound_number token = Some (Account.Number account)"
proof -
  from assms(1,2) have "0 \<le> sint (Account.Number account)" and "sint (Account.Number account) < 100000"
    by (simp_all add: numbers_allocated_def list_all_iff)
  then have "- (2 ^ 53) \<le> sint (Account.Number account)" and "sint (Account.Number account) \<le> 2 ^ 53"
    by simp_all
  with assms(3) show ?thesis by (intro round_trip_in_range)
qed

section \<open>The claims\<close>

subsection \<open>C1: the gate\<close>

text \<open>
  The five checks of \<open>withJWTAuth\<close>, their order and the one response of every denial
  are the lemmas \<open>gate_header_missing\<close>, \<open>gate_token_invalid\<close>, \<open>gate_id_invalid\<close>,
  \<open>gate_lookup_failed\<close>, \<open>gate_number_mismatch\<close> and \<open>gate_passes\<close> above. They do not
  cover every request: \<open>gate_unbound_token\<close> is the rest.

  C1 says that every request is either denied with status 403 and the message
  \<open>Permission denied\<close>, or passes all checks and reaches the wrapped handler. The code
  does neither for a token that verifies under the secret but carries no numeric
  \<open>accountNumber\<close>: the unchecked assertion \<open>claims["accountNumber"].(float64)\<close>
  panics, after the account has been found. In the demo environment, with such a
  token: the token verifies; \<open>GET /account/1\<close> (an account that exists) panics; and
  \<open>GET /account/9\<close> (none) is denied with 403, so the two cases can be told apart.
\<close>

theorem gate_panics_on_unbound_token:
  "validateJWT demo unbound_token =
     Inr \<lparr>Raw = unbound_token, Method = SigningMethodHMAC ''HS256'', Claims = [],
          Signature = ''hmac(HS256,s3cret,HS256.)'', Valid = True\<rparr>
   \<and> Run demo (request ''GET'' (SingleAccount (CHR ''1'') []) unbound_token []) demo_world
       = Panic ''interface conversion: interface {} is nil, not float64''
   \<and> Run demo (request ''GET'' (SingleAccount (CHR ''9'') []) unbound_token []) demo_world
       = Ret \<lparr>rw = response 403 (JObj [(''error'', JStr ''Permission denied'')]),
              store = demo_store\<lparr>qlog := [''SELECT * FROM account WHERE ID = $1'']\<rparr>\<rparr>"
proof -
  let ?r1 = "request ''GET'' (SingleAccount (CHR ''1'') []) unbound_token []"
  let ?r9 = "request ''GET'' (SingleAccount (CHR ''9'') []) unbound_token []"
  let ?t = "\<lparr>Raw = unbound_token, Method = SigningMethodHMAC ''HS256'', Claims = [],
          Signature = ''hmac(HS256,s3cret,HS256.)'', Valid = True\<rparr>"
  have h1: "Header_Get ?r1 ''x-jwt-token'' \<noteq> []" and h9: "Header_Get ?r9 ''x-jwt-token'' \<noteq> []"
    by (simp_all add: Header_Get_request unbound_token_nonempty)
  have v1: "validateJWT demo (Header_Get ?r1 ''x-jwt-token'') = Inr ?t"
    and v9: "validateJWT demo (Header_Get ?r9 ''x-jwt-token'') = Inr ?t"
    by (simp_all add: Header_Get_request validateJWT_demo_unbound)
  have id1: "getID ?r1 = Inr 1" and id9: "getID ?r9 = Inr 9"
    by (simp_all add: getID_def URLParam_def request_def Atoi_def is_digit_def digit_value_def)
  have l1: "fst (GetAccountByID 1 (store demo_world)) = Inr alice"
    by (simp add: GetAccountByID_result demo_world_def demo_store_def alice_def)
  have l9: "fst (GetAccountByID 9 (store demo_world)) = Inl (''Account '' @ string_of_int 9 @ '' not found'')"
    by (simp add: GetAccountByID_result demo_world_def demo_store_def alice_def bob_def)
  have b: "bound_number ?t = None"
    by (simp add: bound_number_def claim_def)
  have r1: "Run demo ?r1 demo_world = Panic ''interface conversion: interface {} is nil, not float64''"
    using gate_unbound_token [OF h1 v1 id1 l1 b]
    by (simp add: Run_def request_def claim_def)
  have r9: "Run demo ?r9 demo_world
       = Ret \<lparr>rw = response 403 (JObj [(''error'', JStr ''Permission denied'')]),
              store = demo_store\<lparr>qlog := [''SELECT * FROM account WHERE ID = $1'']\<rparr>\<rparr>"
    using gate_lookup_failed [OF h9 v9 id9 l9]
    by (simp add: Run_def request_def demo_world_def PermissionsDenied_new_writer demo_store_def)
  show ?thesis using validateJWT_demo_unbound r1 r9 by simp
qed

subsection \<open>C3: issue, then verify\<close>

text \<open>
  C3. For every account the service holds, \<open>createJWT\<close> returns a token string,
  \<open>validateJWT\<close> accepts that string, and the account number the gate reads from the
  verified claims is the account's number. The accounts of the service are the ones
  \<open>NewAccount\<close> builds (first part) and the rows of its table (second part): a table
  that is empty has its numbers in the range \<open>NewAccount\<close> draws from, and no request
  leads out of such a table. The third part is the reason: on its way back the number
  passes through a \<open>float64\<close>, which is exact up to \<open>2\<^sup>5\<^sup>3\<close>. The wire codec is
  taken to split the issued token into the segments that were encoded.
\<close>

theorem createJWT_validateJWT_round_trip:
  "(wire_faithful X created
    \<and> NewAccount X firstname lastname password = (Some created, e) \<longrightarrow>
    (\<exists>tokenString token.
       createJWT X created = Inr tokenString
       \<and> validateJWT X tokenString = Inr token
       \<and> bound_number token = Some (Account.Number created)))
   \<and> (rows s = [] \<longrightarrow> numbers_allocated s)
   \<and> (numbers_allocated (store wd) \<and> Run X r wd = Ret wd' \<longrightarrow> numbers_allocated (store wd'))
   \<and> (numbers_allocated (store wd) \<and> account \<in> set (rows (store wd)) \<and> wire_faithful X account \<longrightarrow>
       (\<exists>tokenString token.
          createJWT X account = Inr tokenString
          \<and> validateJWT X tokenString = Inr token
          \<and> bound_number token = Some (Account.Number account)))
   \<and> (wire_faithful X account
       \<and> - (2 ^ 53) \<le> sint (Account.Number account) \<and> sint (Account.Number account) \<le> 2 ^ 53 \<longrightarrow>
       (\<exists>tokenString token.
          createJWT X account = Inr tokenString
          \<and> validateJWT X tokenString = Inr token
          \<and> bound_number token = Some (Account.Number account)))"
proof (intro conjI impI)
  assume a: "wire_faithful X created \<and> NewAccount X firstname lastname password = (Some created, e)"
  then have "NewAccount X firstname lastname password = (Some created, e)" by simp
  then have "sint (Account.Number created) = int (rand_draw X mod 100000)"
    by (rule NewAccount_number)
  then have "- (2 ^ 53) \<le> sint (Account.Number created)" and "sint (Account.Number created) \<le> 2 ^ 53"
    by simp_all
  with a show "\<exists>tokenString token.
       createJWT X created = Inr tokenString
       \<and> validateJWT X tokenString = Inr token
       \<and> bound_number token = Some (Account.Number created)"
    by (intro round_trip_in_range) simp_all
next
  assume "rows s = []"
  then show "numbers_allocated s" by (simp add: numbers_allocated_def)
next
  assume "numbers_allocated (store wd) \<and> Run X r wd = Ret wd'"
  then show "numbers_allocated (store wd')" using Run_numbers_allocated by blast
next
  assume "numbers_allocated (store wd) \<and> account \<in> set (rows (store wd)) \<and> wire_faithful X account"
  then show "\<exists>tokenString token.
       createJWT X account = Inr tokenString
       \<and> validateJWT X tokenString = Inr token
       \<and> bound_number token = Some (Account.Number account)"
    by (intro round_trip_allocated [of "store wd"]) simp_all
next
  assume "wire_faithful X account
    \<and> - (2 ^ 53) \<le> sint (Account.Number account) \<and> sint (Account.Number account) \<le> 2 ^ 53"
  then show "\<exists>tokenString token.
       createJWT X account = Inr tokenString
       \<and> validateJWT X tokenString = Inr token
       \<and> bound_number token = Some (Account.Number account)"
    by (intro round_trip_in_range) simp_all
qed

theorem createJWT_validateJWT_round_trip_witness:
  "wire_faithful demo dave
   \<and> NewAccount demo ''A'' ''B'' ''pw1'' = (Some dave, None)
   \<and> createJWT demo dave = Inr alice_token
   \<and> rows (demo_store\<lparr>rows := []\<rparr>) = [] \<and> numbers_allocated (demo_store\<lparr>rows := []\<rparr>)
   \<and> numbers_allocated (store demo_world)
   \<and> Run demo (request ''POST'' Accounts [] ''{firstName:A,lastName:B,password:pw1}'') demo_world
       = Ret \<lparr>rw = response 200 (Account_json dave),
              store = \<lparr>rows = [alice, bob, dave\<lparr>ID := 3\<rparr>], serial = 4, fault = None,
                       qlog = [''INSERT INTO account'']\<rparr>\<rparr>
   \<and> numbers_allocated \<lparr>rows = [alice, bob, dave\<lparr>ID := 3\<rparr>], serial = 4, fault = None,
                         qlog = [''INSERT INTO account'']\<rparr>
   \<and> alice \<in> set (rows (store demo_world)) \<and> wire_faithful demo alice
   \<and> - (2 ^ 53) \<le> sint (Account.Number alice) \<and> sint (Account.Number alice) \<le> 2 ^ 53
   \<and> createJWT demo alice = Inr alice_token
   \<and> (\<exists>token. validateJWT demo alice_token = Inr token \<and> bound_number token = Some 34567)"
proof -
  have a: "NewAccount demo ''A'' ''B'' ''pw1'' = (Some dave, None)"
    by (simp add: NewAccount_def demo_def demo_generate_def Intn_def dave_def)
  have cd: "createJWT demo dave = Inr alice_token"
    by (simp add: createJWT_eq issued_claims_def demo_def dave_def alice_token_text demo_codec_defs)
  have ca: "createJWT demo alice = Inr alice_token"
    by (simp add: createJWT_eq issued_claims_def demo_def alice_def alice_token_text demo_codec_defs)
  have e: "rows (demo_store\<lparr>rows := []\<rparr>) = []" by simp
  have n: "numbers_allocated (store demo_world)"
    by (simp add: numbers_allocated_def demo_world_def demo_store_def alice_def bob_def)
  have m: "alice \<in> set (rows (store demo_world))"
    by (simp add: demo_world_def demo_store_def)
  have r: "- (2 ^ 53) \<le> sint (Account.Number alice) \<and> sint (Account.Number alice) \<le> 2 ^ 53"
    by (simp add: alice_def)
  from createJWT_validateJWT_round_trip [of demo dave "''A''" "''B''" "''pw1''" None
      "demo_store\<lparr>rows := []\<rparr>" demo_world
      "request ''POST'' Accounts [] ''{firstName:A,lastName:B,password:pw1}''"
      "\<lparr>rw = response 200 (Account_json dave),
        store = \<lparr>rows = [alice, bob, dave\<lparr>ID := 3\<rparr>], serial = 4, fault = None,
                 qlog = [''INSERT INTO account'']\<rparr>\<rparr>" alice]
    wire_faithful_demo_dave wire_faithful_demo_alice a cd ca e n m r Run_demo_create
  show ?thesis by (auto simp: alice_def)
qed

subsection \<open>C4: issuing a token with an empty secret\<close>

text \<open>
  C4, as amended. \<open>createJWT\<close> does not look at the secret: it signs with whatever
  \<open>JWT_SECRET\<close> holds (the empty string when the variable is not set), and HMAC
  signing has no error for a byte-slice key of any length. For every environment and
  account it returns a token: the signing string, a dot, and the HMAC of the signing
  string under the secret.
\<close>

theorem createJWT_signs_with_any_secret:
  "createJWT X account =
     Inr (signing_string X ''HS256''
            [(''expiresAt'', JInt 15000), (''accountNumber'', JInt (sint (Account.Number account)))]
          @ ''.'' @
          hmac X ''HS256'' (Getenv X ''JWT_SECRET'')
            (signing_string X ''HS256''
               [(''expiresAt'', JInt 15000), (''accountNumber'', JInt (sint (Account.Number account)))]))"
  by (simp add: createJWT_def SignedString_def NewWithClaims_def SigningMethodHS256_def Method_Sign_def
      Let_def)

text \<open>
  The claim as stated (an empty or unavailable secret makes issuance fail with a signing
  error) is false where \<open>JWT_SECRET\<close> is not set: \<open>createJWT\<close> returns a token.
\<close>

theorem createJWT_empty_secret_succeeds:
  "Getenv demo_unset ''JWT_SECRET'' = []
   \<and> createJWT demo_unset alice =
       Inr ''HS256.expiresAt=15000;accountNumber=34567;.hmac(HS256,,HS256.expiresAt=15000;accountNumber=34567;)''"
  by (simp add: createJWT_def SignedString_def NewWithClaims_def SigningMethodHS256_def Method_Sign_def
      Let_def demo_unset_def demo_def alice_def demo_signing_string_def demo_member_def demo_hmac_def
      string_of_int_def digit_def)

subsection \<open>C5: deleting an account that does not exist\<close>

text \<open>
  C5 says that deleting an id that names no account is answered with an error. The
  delete operation does not do that. \<open>DeleteAccount\<close> sends the \<open>DELETE\<close> and does not
  look at its result, and a \<open>DELETE\<close> that matches no row is not an error of the
  database; so \<open>HandleDeleteAccount\<close> answers 200 with \<open>{"deleted:": id}\<close>
  (\<open>HandleDeleteAccount_unknown_id\<close>, for every store that answers). The lookups of
  the same store do report an id they do not find. In the demo store, which has no
  account 9: the lookup of 9 is an error; the delete of 9 is none, and the handler
  answers 200. The gate looks the account up before the handler runs, so one request
  after another meets its 403 first; but of two \<open>DELETE /account/1\<close> that have both
  passed the gate, the first deletes the row and the second, its handler running on
  the table without account 1, is answered 200 as well.
\<close>

theorem delete_unknown_id_reports_success:
  "fst (GetAccountByID 9 demo_store) = Inl ''Account 9 not found''
   \<and> DeleteAccount 9 demo_store
       = (None, demo_store\<lparr>qlog := [''DELETE FROM account WHERE ID = $1'']\<rparr>)
   \<and> HandleDeleteAccount (request ''DELETE'' (SingleAccount (CHR ''9'') []) alice_token []) demo_world
       = Ret (None, \<lparr>rw = response 200 (JObj [(''deleted:'', JInt 9)]),
                     store = demo_store\<lparr>qlog := [''DELETE FROM account WHERE ID = $1'']\<rparr>\<rparr>)
   \<and> Run demo (request ''DELETE'' (SingleAccount (CHR ''1'') []) alice_token []) demo_world
       = Ret \<lparr>rw = response 200 (JObj [(''deleted:'', JInt 1)]),
              store = \<lparr>rows = [bob], serial = 3, fault = None,
                       qlog = [''SELECT * FROM account WHERE ID = $1'',
                               ''DELETE FROM account WHERE ID = $1'']\<rparr>\<rparr>
   \<and> makeHTTPHandleFunc HandleSingleAccount
         (request ''DELETE'' (SingleAccount (CHR ''1'') []) alice_token [])
         \<lparr>rw = new_writer,
          store = \<lparr>rows = [bob], serial = 3, fault = None,
                   qlog = [''SELECT * FROM account WHERE ID = $1'',
                           ''DELETE FROM account WHERE ID = $1'']\<rparr>\<rparr>
       = Ret \<lparr>rw = response 200 (JObj [(''deleted:'', JInt 1)]),
              store = \<lparr>rows = [bob], serial = 3, fault = None,
                       qlog = [''SELECT * FROM account WHERE ID = $1'',
                               ''DELETE FROM account WHERE ID = $1'',
                               ''DELETE FROM account WHERE ID = $1'']\<rparr>\<rparr>"
proof -
  let ?r9 = "request ''DELETE'' (SingleAccount (CHR ''9'') []) alice_token []"
  let ?r1 = "request ''DELETE'' (SingleAccount (CHR ''1'') []) alice_token []"
  have g: "fst (GetAccountByID 9 demo_store) = Inl ''Account 9 not found''"
    by (simp add: GetAccountByID_result demo_store_def alice_def bob_def string_of_int_def digit_def)
  have d: "DeleteAccount 9 demo_store
       = (None, demo_store\<lparr>qlog := [''DELETE FROM account WHERE ID = $1'']\<rparr>)"
    by (simp add: DeleteAccount_def Query_def demo_store_def alice_def bob_def)
  have i9: "getID ?r9 = Inr 9" and i1: "getID ?r1 = Inr 1"
    by (simp_all add: getID_def URLParam_def request_def Atoi_def is_digit_def digit_value_def)
  have h: "HandleDeleteAccount ?r9 demo_world
       = Ret (None, \<lparr>rw = response 200 (JObj [(''deleted:'', JInt 9)]),
                     store = demo_store\<lparr>qlog := [''DELETE FROM account WHERE ID = $1'']\<rparr>\<rparr>)"
    using HandleDeleteAccount_unknown_id [of ?r9 9 demo_world] i9
    by (simp add: demo_world_def demo_store_def alice_def bob_def WriteJSON_new_writer StatusOK_def)
  have m: "Request.Method ?r1 = ''DELETE''" by (simp add: request_def)
  have s: "makeHTTPHandleFunc HandleSingleAccount ?r1
         \<lparr>rw = new_writer,
          store = \<lparr>rows = [bob], serial = 3, fault = None,
                   qlog = [''SELECT * FROM account WHERE ID = $1'',
                           ''DELETE FROM account WHERE ID = $1'']\<rparr>\<rparr>
       = Ret \<lparr>rw = response 200 (JObj [(''deleted:'', JInt 1)]),
              store = \<lparr>rows = [bob], serial = 3, fault = None,
                       qlog = [''SELECT * FROM account WHERE ID = $1'',
                               ''DELETE FROM account WHERE ID = $1'',
                               ''DELETE FROM account WHERE ID = $1'']\<rparr>\<rparr>"
    using i1 m
    by (simp add: makeHTTPHandleFunc_def HandleSingleAccount_def HandleDeleteAccount_def
        DeleteAccount_def Query_def WriteJSON_new_writer StatusOK_def bob_def)
  show ?thesis using g d h s Run_demo_delete_alice by simp
qed

subsection \<open>C7: the account number\<close>

text \<open>
  C7. (1) The number of an account \<open>NewAccount\<close> builds is the generator's draw
  reduced modulo 100000, so it lies in \<open>[0, 100000)\<close>. (2) It is not reassigned: after
  any request, every row of the table is a row that was there before, unchanged, or
  the account \<open>NewAccount\<close> has just built for this request, with its \<open>id\<close> from the
  sequence; and \<open>UpdateAccount\<close> does nothing. (3) Nothing checks uniqueness:
  \<open>NewAccount\<close> does not see the store, and \<open>CreateAccount\<close> inserts whenever the
  database answers, whatever numbers the table holds. (That the draw is uniform is a
  property of \<open>math/rand\<close>, which is a parameter here.)
\<close>

theorem account_number_allocation:
  "(NewAccount X firstname lastname password = (Some a, e) \<longrightarrow>
      sint (Account.Number a) = int (rand_draw X mod 100000)
      \<and> 0 \<le> sint (Account.Number a) \<and> sint (Account.Number a) < 100000)
   \<and> (Run X r wd = Ret wd' \<longrightarrow>
        (\<forall>b \<in> set (rows (store wd')).
           b \<in> set (rows (store wd))
           \<or> (\<exists>req c. Decode_CreateAccountRequest X (Body r) = Inr req
                \<and> NewAccount X (CreateAccountRequest.FirstName req) (CreateAccountRequest.LastName req)
                     (CreateAccountRequest.Password req) = (Some c, None)
                \<and> b = c\<lparr>ID := serial (store wd)\<rparr>)))
   \<and> UpdateAccount p s = (None, s)
   \<and> (fault s = None \<longrightarrow>
        CreateAccount (Some a) s =
          Ret (None, s\<lparr>qlog := qlog s @ [''INSERT INTO account''],
                        rows := rows s @ [a\<lparr>ID := serial s\<rparr>],
                        serial := serial s + 1\<rparr>))"
proof (intro conjI impI ballI)
  assume n: "NewAccount X firstname lastname password = (Some a, e)"
  from NewAccount_number [OF n] show "sint (Account.Number a) = int (rand_draw X mod 100000)" .
  with NewAccount_number [OF n] show "0 \<le> sint (Account.Number a)" by simp
  from NewAccount_number [OF n] show "sint (Account.Number a) < 100000" by simp
next
  fix b
  assume "Run X r wd = Ret wd'" and "b \<in> set (rows (store wd'))"
  then show "b \<in> set (rows (store wd))
           \<or> (\<exists>req c. Decode_CreateAccountRequest X (Body r) = Inr req
                \<and> NewAccount X (CreateAccountRequest.FirstName req) (CreateAccountRequest.LastName req)
                     (CreateAccountRequest.Password req) = (Some c, None)
                \<and> b = c\<lparr>ID := serial (store wd)\<rparr>)"
    by (rule Run_rows)
next
  show "UpdateAccount p s = (None, s)" by (simp add: UpdateAccount_def)
next
  assume "fault s = None"
  then show "CreateAccount (Some a) s =
          Ret (None, s\<lparr>qlog := qlog s @ [''INSERT INTO account''],
                        rows := rows s @ [a\<lparr>ID := serial s\<rparr>],
                        serial := serial s + 1\<rparr>)"
    by (simp add: CreateAccount_def Query_def)
qed

theorem account_number_allocation_witness:
  "NewAccount demo ''A'' ''B'' ''pw1'' = (Some dave, None)
   \<and> sint (Account.Number dave) = 34567
   \<and> Run demo (request ''POST'' Accounts [] ''{firstName:A,lastName:B,password:pw1}'') demo_world
       = Ret \<lparr>rw = response 200 (Account_json dave),
              store = \<lparr>rows = [alice, bob, dave\<lparr>ID := 3\<rparr>], serial = 4, fault = None,
                       qlog = [''INSERT INTO account'']\<rparr>\<rparr>
   \<and> fault demo_store = None
   \<and> Account.Number dave = Account.Number alice
   \<and> CreateAccount (Some dave) demo_store
       = Ret (None, \<lparr>rows = [alice, bob, dave\<lparr>ID := 3\<rparr>], serial = 4, fault = None,
                     qlog = [''INSERT INTO account'']\<rparr>)"
proof -
  let ?r = "request ''POST'' Accounts [] ''{firstName:A,lastName:B,password:pw1}''"
  let ?s = "\<lparr>rows = [alice, bob, dave\<lparr>ID := 3\<rparr>], serial = 4, fault = None,
             qlog = [''INSERT INTO account'']\<rparr>"
  have n: "NewAccount demo ''A'' ''B'' ''pw1'' = (Some dave, None)"
    by (simp add: NewAccount_def demo_def demo_generate_def Intn_def dave_def)
  have c: "CreateAccount (Some dave) demo_store = Ret (None, ?s)"
    by (simp add: CreateAccount_def Query_def demo_store_def)
  have d: "Decode_CreateAccountRequest demo ''{firstName:A,lastName:B,password:pw1}''
           = Inr \<lparr>CreateAccountRequest.FirstName = ''A'', LastName = ''B'', Password = ''pw1''\<rparr>"
    by (simp add: demo_def)
  have run: "Run demo ?r demo_world = Ret \<lparr>rw = response 200 (Account_json dave), store = ?s\<rparr>"
    using n c d
    by (simp add: Run_def makeHTTPHandleFunc_def HandleAccount_def HandleCreateAccount_def
        request_def demo_world_def WriteJSON_new_writer StatusOK_def)
  have f: "fault demo_store = None" by (simp add: demo_store_def)
  from account_number_allocation [of demo "''A''" "''B''" "''pw1''" dave None ?r demo_world
      "\<lparr>rw = response 200 (Account_json dave), store = ?s\<rparr>" None demo_store] n run f c
  show ?thesis by (simp add: dave_def alice_def)
qed

subsection \<open>C8: the transfer handler echoes and touches nothing\<close>

text \<open>
  C8. Whenever the body of a request decodes to a transfer request \<open>t\<close>,
  \<open>HandleTransferToAccount\<close> writes status 200 with the JSON of \<open>t\<close> and returns no
  error; and a \<open>POST\<close> to \<open>/transfer\<close> answers, on a fresh writer, exactly
  \<open>{"toAccount": t.ToAccount, "amount": t.Amount}\<close> with status 200 and leaves the store
  as it was: the same rows (so every balance), and no statement sent (\<open>qlog\<close>).
\<close>

theorem transfer_echo:
  "Decode_TransferRequest X (Body r) = Inr t \<longrightarrow>
     HandleTransferToAccount X r wd =
       Ret (None, wd\<lparr>rw := snd (WriteJSON (rw wd) StatusOK (TransferRequest_json t))\<rparr>)
     \<and> (Request.Method r = ''POST'' \<and> Route r = Transfer \<and> rw wd = new_writer \<longrightarrow>
          Run X r wd =
            Ret \<lparr>rw = response 200 (JObj [(''toAccount'', JInt (ToAccount t)), (''amount'', JInt (Amount t))]),
                 store = store wd\<rparr>)"
  by (simp add: HandleTransferToAccount_def Run_def HandleTransfer_def makeHTTPHandleFunc_def
      WriteJSON_def WriteHeader_def Let_def new_writer_def response_def TransferRequest_json_def
      StatusOK_def)

theorem transfer_echo_witness:
  "Decode_TransferRequest demo (Body (request ''POST'' Transfer [] ''{toAccount:7,amount:250}''))
     = Inr \<lparr>ToAccount = 7, Amount = 250\<rparr>
   \<and> Request.Method (request ''POST'' Transfer [] ''{toAccount:7,amount:250}'') = ''POST''
   \<and> Route (request ''POST'' Transfer [] ''{toAccount:7,amount:250}'') = Transfer
   \<and> rw demo_world = new_writer
   \<and> Run demo (request ''POST'' Transfer [] ''{toAccount:7,amount:250}'') demo_world =
       Ret \<lparr>rw = response 200 (JObj [(''toAccount'', JInt 7), (''amount'', JInt 250)]),
            store = demo_store\<rparr>"
  using transfer_echo [of demo "request ''POST'' Transfer [] ''{toAccount:7,amount:250}''"
                          "\<lparr>ToAccount = 7, Amount = 250\<rparr>" demo_world]
  by (simp add: demo_def request_def demo_world_def)

subsection \<open>C9: the error envelope and its statuses\<close>

text \<open>
  C9. (1) Whatever error a handler returns, \<open>makeHTTPHandleFunc\<close> writes
  \<open>{"error": message}\<close> with status 400. (2) The four handlers the router wraps return
  an error only with the writer untouched, so on a fresh writer that envelope is the
  whole response. (3) A denial is \<open>{"error": "Permission denied"}\<close> with status 403.
  (4) Every response of the server is one of: status 200; status 400 with an error
  envelope; status 403 with the denial.
\<close>

theorem adapter_error_envelope:
  "(f r wd = Ret (Some err, wd1) \<longrightarrow>
      makeHTTPHandleFunc f r wd =
        Ret (wd1\<lparr>rw := snd (WriteJSON (rw wd1) StatusBadRequest (APIError err))\<rparr>))
   \<and> (f \<in> {HandleLogin X, HandleAccount X, HandleSingleAccount, HandleTransfer X}
        \<and> rw wd = new_writer \<and> f r wd = Ret (Some err, wd1) \<longrightarrow>
      makeHTTPHandleFunc f r wd = Ret (wd1\<lparr>rw := response 400 (JObj [(''error'', JStr err)])\<rparr>))
   \<and> PermissionsDenied new_writer = response 403 (JObj [(''error'', JStr ''Permission denied'')])
   \<and> (Run X r wd = Ret wd2 \<and> rw wd = new_writer \<longrightarrow>
        (\<exists>v. rw wd2 = response 200 v)
        \<or> (\<exists>msg. rw wd2 = response 400 (JObj [(''error'', JStr msg)]))
        \<or> rw wd2 = response 403 (JObj [(''error'', JStr ''Permission denied'')]))"
proof (intro conjI impI)
  assume "f r wd = Ret (Some err, wd1)"
  then show "makeHTTPHandleFunc f r wd =
        Ret (wd1\<lparr>rw := snd (WriteJSON (rw wd1) StatusBadRequest (APIError err))\<rparr>)"
    by (rule makeHTTPHandleFunc_error)
next
  assume a: "f \<in> {HandleLogin X, HandleAccount X, HandleSingleAccount, HandleTransfer X}
        \<and> rw wd = new_writer \<and> f r wd = Ret (Some err, wd1)"
  then have "rw wd1 = rw wd"
    by (auto dest: HandleLogin_error HandleAccount_error HandleSingleAccount_error HandleTransfer_error)
  with a show "makeHTTPHandleFunc f r wd = Ret (wd1\<lparr>rw := response 400 (JObj [(''error'', JStr err)])\<rparr>)"
    by (simp add: makeHTTPHandleFunc_error WriteJSON_new_writer StatusBadRequest_def APIError_def)
next
  show "PermissionsDenied new_writer = response 403 (JObj [(''error'', JStr ''Permission denied'')])"
    by (rule PermissionsDenied_new_writer)
next
  assume "Run X r wd = Ret wd2 \<and> rw wd = new_writer"
  then show "(\<exists>v. rw wd2 = response 200 v)
        \<or> (\<exists>msg. rw wd2 = response 400 (JObj [(''error'', JStr msg)]))
        \<or> rw wd2 = response 403 (JObj [(''error'', JStr ''Permission denied'')])"
    using Run_response_shape by blast
qed

theorem adapter_error_envelope_witness:
  "HandleTransfer demo (request ''PUT'' Transfer [] []) demo_world
     = Ret (Some ''methods not allowed PUT'', demo_world)
   \<and> rw demo_world = new_writer
   \<and> makeHTTPHandleFunc (HandleTransfer demo) (request ''PUT'' Transfer [] []) demo_world
     = Ret (demo_world\<lparr>rw := response 400 (JObj [(''error'', JStr ''methods not allowed PUT'')])\<rparr>)
   \<and> Run demo (request ''PUT'' Transfer [] []) demo_world
     = Ret (demo_world\<lparr>rw := response 400 (JObj [(''error'', JStr ''methods not allowed PUT'')])\<rparr>)"
  using adapter_error_envelope [of "HandleTransfer demo" "request ''PUT'' Transfer [] []" demo_world
      "''methods not allowed PUT''" demo_world demo
      "demo_world\<lparr>rw := response 400 (JObj [(''error'', JStr ''methods not allowed PUT'')])\<rparr>"]
    HandleTransfer_put
  by (simp add: demo_world_def Run_def request_def WriteJSON_new_writer StatusBadRequest_def APIError_def)

subsection \<open>C10: a hashing failure at account creation is a nil dereference\<close>

text \<open>
  C10. When the body decodes to a create-account request and \<open>bcrypt\<close> fails on its
  password, \<open>NewAccount\<close> returns \<open>(nil, err)\<close>; \<open>HandleCreateAccount\<close> drops the
  error and hands the nil pointer to \<open>CreateAccount\<close>, which panics when it reads
  the fields of the account. No error is returned, so the adapter writes no error
  response: a \<open>POST\<close> to \<open>/account\<close> ends in the panic. The witness is a password
  of 73 bytes, one more than the \<open>bcrypt\<close> of the demo environment accepts.
\<close>

theorem create_account_hash_failure_panics:
  "Decode_CreateAccountRequest X (Body r) = Inr req
   \<and> GenerateFromPassword X (CreateAccountRequest.Password req) DefaultCost = Inl e \<longrightarrow>
     NewAccount X (CreateAccountRequest.FirstName req) (CreateAccountRequest.LastName req)
       (CreateAccountRequest.Password req) = (None, Some e)
     \<and> CreateAccount None (store wd) = Panic nil_dereference
     \<and> HandleCreateAccount X r wd = Panic nil_dereference
     \<and> makeHTTPHandleFunc (HandleCreateAccount X) r wd = Panic nil_dereference
     \<and> (Request.Method r = ''POST'' \<and> Route r = Accounts \<longrightarrow> Run X r wd = Panic nil_dereference)"
  by (simp add: NewAccount_def HandleCreateAccount_def CreateAccount_def makeHTTPHandleFunc_def
      Run_def HandleAccount_def)

theorem create_account_hash_failure_panics_witness:
  "Decode_CreateAccountRequest demo
       (Body (request ''POST'' Accounts [] ''{firstName:A,lastName:B,password:<73 bytes>}''))
     = Inr \<lparr>CreateAccountRequest.FirstName = ''A'', LastName = ''B'', Password = replicate 73 (CHR ''x'')\<rparr>
   \<and> GenerateFromPassword demo (replicate 73 (CHR ''x'')) DefaultCost
       = Inl ''bcrypt: password length exceeds 72 bytes''
   \<and> Run demo (request ''POST'' Accounts [] ''{firstName:A,lastName:B,password:<73 bytes>}'') demo_world
       = Panic nil_dereference"
  using create_account_hash_failure_panics
    [of demo "request ''POST'' Accounts [] ''{firstName:A,lastName:B,password:<73 bytes>}''"
        "\<lparr>CreateAccountRequest.FirstName = ''A'', LastName = ''B'', Password = replicate 73 (CHR ''x'')\<rparr>"
        "''bcrypt: password length exceeds 72 bytes''" demo_world]
  by (simp add: demo_def request_def demo_generate_def)

end
